theory Spec2Isabelle
  imports Complex_Main "HOL-Library.Sublist"
begin


section \<open>CSV column-name standardisation (streetscope downloader)\<close>

text \<open>
  The legacy downloader reads the input CSV and normalises its header in place:
  every column name is lowercased, then one pass over the lowercased header renames
  each recognised longitude or latitude variant.  Only the header changes, the cells
  stay where they are.  Column names are modelled as ASCII strings; \<open>lower_char\<close>
  is Python's \<open>str.lower\<close> on that range.
\<close>

record csv_frame =
  columns :: "string list"
  cells :: "string list list"

definition lower_char :: "char \<Rightarrow> char" where
  "lower_char c =
     (let n = (of_char c :: nat) in if 65 \<le> n \<and> n \<le> 90 then char_of (n + 32) else c)"

definition lower :: "string \<Rightarrow> string" where
  "lower s = map lower_char s"

definition longitude_variants :: "string list" where
  "longitude_variants = [''longitude'', ''long'', ''lon'', ''lng'', ''x'']"

definition latitude_variants :: "string list" where
  "latitude_variants = [''latitude'', ''lat'', ''lt'', ''y'']"

text \<open>\<open>df.rename(columns={old: new}, inplace=True)\<close>: every column labelled \<open>old\<close>
  gets the label \<open>new\<close>.\<close>

definition rename :: "string \<Rightarrow> string \<Rightarrow> string list \<Rightarrow> string list" where
  "rename old new cols = map (\<lambda>c. if c = old then new else c) cols"

text \<open>The \<open>for col in df.columns\<close> loop: it walks the header as it was when the loop
  started (first argument) and renames in the current header (second argument).\<close>

fun rename_loop :: "string list \<Rightarrow> string list \<Rightarrow> string list" where
  "rename_loop [] cur = cur"
| "rename_loop (col # rest) cur =
     rename_loop rest
       (if col \<in> set longitude_variants then rename col ''longitude'' cur
        else if col \<in> set latitude_variants then rename col ''latitude'' cur
        else cur)"

definition standardize_column_names :: "csv_frame \<Rightarrow> csv_frame" where
  "standardize_column_names df =
     (let lowered = map lower (columns df)
      in df\<lparr>columns := rename_loop lowered lowered\<rparr>)"

text \<open>The name a single column ends up with, as the specification words it.\<close>

definition canonical_name :: "string \<Rightarrow> string" where
  "canonical_name c =
     (if lower c \<in> set longitude_variants then ''longitude''
      else if lower c \<in> set latitude_variants then ''latitude''
      else lower c)"

section \<open>Column standardisation: proofs\<close>

lemma lower_char_idem: "lower_char (lower_char c) = lower_char c"
proof -
  have "of_char (char_of (of_char c + 32 :: nat)) = (of_char c + 32 :: nat)"
    if "65 \<le> (of_char c :: nat)" "(of_char c :: nat) \<le> 90"
    using that by (simp add: of_char_of)
  then show ?thesis
    by (auto simp: lower_char_def Let_def)
qed

lemma lower_idem: "lower (lower s) = lower s"
  by (simp add: lower_def lower_char_idem)

text \<open>The name a column keeps once it is lowercased: the loop's effect on one label.\<close>

definition canon_lowered :: "string \<Rightarrow> string" where
  "canon_lowered c =
     (if c \<in> set longitude_variants then ''longitude''
      else if c \<in> set latitude_variants then ''latitude''
      else c)"

lemma canon_lowered_idem: "canon_lowered (canon_lowered c) = canon_lowered c"
  by (simp add: canon_lowered_def longitude_variants_def latitude_variants_def)

lemma rename_loop_map:
  "rename_loop cols cur = map (\<lambda>c. if c \<in> set cols then canon_lowered c else c) cur"
proof (induction cols arbitrary: cur)
  case Nil
  then show ?case by simp
next
  case (Cons col rest)
  have step: "(if col \<in> set longitude_variants then rename col ''longitude'' cur
        else if col \<in> set latitude_variants then rename col ''latitude'' cur
        else cur) = map (\<lambda>c. if c = col then canon_lowered c else c) cur"
    by (auto simp: rename_def canon_lowered_def map_idI)
  show ?case
    unfolding rename_loop.simps step Cons.IH
    using canon_lowered_idem by (auto simp: o_def)
qed

lemma lower_canonical: "lower ''longitude'' = ''longitude''" "lower ''latitude'' = ''latitude''"
  by code_simp+

lemma standardize_columns:
  "columns (standardize_column_names df) = map canonical_name (columns df)"
  by (simp add: standardize_column_names_def Let_def rename_loop_map canonical_name_def
      canon_lowered_def)

lemma canonical_name_idem: "canonical_name (canonical_name c) = canonical_name c"
  by (simp add: canonical_name_def lower_idem lower_canonical)
    (simp add: longitude_variants_def latitude_variants_def)

lemma standardize_idem:
  "standardize_column_names (standardize_column_names df) = standardize_column_names df"
proof -
  have "standardize_column_names (standardize_column_names df) =
     (standardize_column_names df)
       \<lparr>columns := columns (standardize_column_names (standardize_column_names df))\<rparr>"
    by (simp add: standardize_column_names_def Let_def)
  also have "\<dots> = standardize_column_names df"
    by (simp add: standardize_columns canonical_name_idem)
  finally show ?thesis .
qed

text \<open>
  Claim C9.  Column standardisation is case-insensitive and idempotent: the header
  after the call is the old header with every name replaced by its canonical name
  (\<open>longitude\<close> for a name whose lowercase form is one of longitude, long, lon, lng, x;
  \<open>latitude\<close> for latitude, lat, lt, y; the lowercase form otherwise), the cells are
  untouched, a name and its lowercase form get the same canonical name, \<open>LAT\<close>,
  \<open>lat\<close>, \<open>lt\<close> and \<open>y\<close> all become \<open>latitude\<close>, and a second call changes nothing.
\<close>

theorem standardize_column_names_canonical_idempotent:
  "columns (standardize_column_names df) = map canonical_name (columns df)
   \<and> cells (standardize_column_names df) = cells df
   \<and> canonical_name (lower c) = canonical_name c
   \<and> canonical_name ''LAT'' = ''latitude'' \<and> canonical_name ''lat'' = ''latitude''
   \<and> canonical_name ''lt'' = ''latitude'' \<and> canonical_name ''y'' = ''latitude''
   \<and> canonical_name ''LNG'' = ''longitude'' \<and> canonical_name ''X'' = ''longitude''
   \<and> canonical_name ''Panoid'' = ''panoid''
   \<and> standardize_column_names (standardize_column_names df) = standardize_column_names df"
proof -
  have ev: "canonical_name ''LAT'' = ''latitude''" "canonical_name ''lat'' = ''latitude''"
    "canonical_name ''lt'' = ''latitude''" "canonical_name ''y'' = ''latitude''"
    "canonical_name ''LNG'' = ''longitude''" "canonical_name ''X'' = ''longitude''"
    "canonical_name ''Panoid'' = ''panoid''"
    by code_simp+
  have ci: "canonical_name (lower c) = canonical_name c"
    by (simp add: canonical_name_def lower_idem)
  have ce: "cells (standardize_column_names df) = cells df"
    by (simp add: standardize_column_names_def Let_def)
  show ?thesis
    using ev ci ce standardize_columns standardize_idem by simp
qed

section \<open>Mapillary GeoJSON model (features and their equality)\<close>

text \<open>
  Python exceptions the modelled code can raise.  \<open>ValueError\<close>, which carries its
  message, is what the specification calls InvalidInput.
\<close>

datatype py_error =
  KeyError | IndexError | AttributeError | ValueError string | UnboundLocalError
  | ZeroDivisionError

text \<open>
  A feature dictionary as the Mapillary API returns it: a geometry with a type and a
  coordinate list, and a dictionary of properties (an association list with \<open>map_of\<close>
  as lookup).  Property values are any type whose Python equality is HOL equality;
  coordinates are floats that are only stored and compared, never computed with
  (NaN, which is not equal to itself, is outside the model).
\<close>

record geometry_dict =
  gd_type :: string
  gd_coordinates :: "real list"

record 'v feature_dict =
  fd_geometry :: geometry_dict
  fd_properties :: "(string \<times> 'v) list"

record Coordinates =
  longitude :: real
  latitude :: real

record Geometry =
  geom_type :: string
  coordinates :: Coordinates

record 'v Feature =
  ftype :: string
  geometry :: Geometry
  properties :: "(string \<times> 'v) list"

text \<open>\<open>Geometry.__init__\<close>: reads coordinates 0 and 1; a shorter list raises.\<close>

definition Geometry_init :: "geometry_dict \<Rightarrow> py_error + Geometry" where
  "Geometry_init gd =
     (case gd_coordinates gd of
        lon # lat # _ \<Rightarrow>
          Inr \<lparr>geom_type = gd_type gd, coordinates = \<lparr>longitude = lon, latitude = lat\<rparr>\<rparr>
      | _ \<Rightarrow> Inl IndexError)"

text \<open>\<open>Feature.__init__\<close>: the type is always the literal \<open>Feature\<close>.\<close>

definition Feature_init :: "'v feature_dict \<Rightarrow> py_error + 'v Feature" where
  "Feature_init fd =
     (case Geometry_init (fd_geometry fd) of
        Inl e \<Rightarrow> Inl e
      | Inr g \<Rightarrow> Inr \<lparr>ftype = ''Feature'', geometry = g, properties = fd_properties fd\<rparr>)"

text \<open>\<open>self.properties.captured_at\<close>: a missing attribute raises.\<close>

definition captured_at :: "'v Feature \<Rightarrow> py_error + 'v" where
  "captured_at f =
     (case map_of (properties f) ''captured_at'' of
        None \<Rightarrow> Inl AttributeError
      | Some v \<Rightarrow> Inr v)"

text \<open>\<open>Feature.__hash__\<close>: the hash of the tuple (type, (latitude, longitude),
  captured_at); the tuple itself stands for its hash.\<close>

definition Feature_hash :: "'v Feature \<Rightarrow> py_error + (string \<times> (real \<times> real) \<times> 'v)" where
  "Feature_hash f =
     (case captured_at f of
        Inl e \<Rightarrow> Inl e
      | Inr c \<Rightarrow>
          Inr (ftype f,
               (latitude (coordinates (geometry f)), longitude (coordinates (geometry f))), c))"

text \<open>\<open>Feature.__eq__\<close>, with the short-circuit order of Python's \<open>and\<close>.\<close>

definition Feature_eq :: "'v Feature \<Rightarrow> 'v Feature \<Rightarrow> py_error + bool" where
  "Feature_eq f other =
     (if ftype f \<noteq> ftype other then Inr False
      else if (latitude (coordinates (geometry f)), longitude (coordinates (geometry f)))
              \<noteq> (latitude (coordinates (geometry other)),
                     longitude (coordinates (geometry other)))
      then Inr False
      else (case captured_at f of
              Inl e \<Rightarrow> Inl e
            | Inr a \<Rightarrow> (case captured_at other of Inl e \<Rightarrow> Inl e | Inr b \<Rightarrow> Inr (a = b))))"

text \<open>
  The GeoJSON object: the feature list and \<open>features_set\<close>, the Python set of the
  same Feature objects, kept as the list of the objects stored in it.
\<close>

record 'v GeoJSON =
  gj_type :: string
  features :: "'v Feature list"
  features_set :: "'v Feature list"

text \<open>\<open>feature in features_set\<close>: hash the probe (this can raise), then look for a
  stored object with the same hash that \<open>__eq__\<close> accepts.\<close>

definition set_contains :: "'v Feature list \<Rightarrow> 'v Feature \<Rightarrow> py_error + bool" where
  "set_contains stored f =
     (case Feature_hash f of
        Inl e \<Rightarrow> Inl e
      | Inr h \<Rightarrow>
          Inr (list_ex (\<lambda>x. Feature_hash x = Inr h \<and> Feature_eq x f = Inr True) stored))"

text \<open>\<open>set.add\<close>: stores the object unless an equal one is stored already.\<close>

definition set_add :: "'v Feature list \<Rightarrow> 'v Feature \<Rightarrow> py_error + 'v Feature list" where
  "set_add stored f =
     (case set_contains stored f of
        Inl e \<Rightarrow> Inl e
      | Inr True \<Rightarrow> Inr stored
      | Inr False \<Rightarrow> Inr (stored @ [f]))"

fun set_of_list :: "'v Feature list \<Rightarrow> 'v Feature list \<Rightarrow> py_error + 'v Feature list" where
  "set_of_list stored [] = Inr stored"
| "set_of_list stored (f # fs) =
     (case set_add stored f of Inl e \<Rightarrow> Inl e | Inr stored' \<Rightarrow> set_of_list stored' fs)"

fun Feature_init_all :: "'v feature_dict list \<Rightarrow> py_error + 'v Feature list" where
  "Feature_init_all [] = Inr []"
| "Feature_init_all (fd # fds) =
     (case Feature_init fd of
        Inl e \<Rightarrow> Inl e
      | Inr f \<Rightarrow> (case Feature_init_all fds of Inl e \<Rightarrow> Inl e | Inr fs \<Rightarrow> Inr (f # fs)))"

text \<open>\<open>GeoJSON.__init__\<close>: builds every feature, then \<open>set(self.features)\<close>.\<close>

definition GeoJSON_init :: "string \<Rightarrow> 'v feature_dict list \<Rightarrow> py_error + 'v GeoJSON" where
  "GeoJSON_init ty fds =
     (case Feature_init_all fds of
        Inl e \<Rightarrow> Inl e
      | Inr fs \<Rightarrow>
          (case set_of_list [] fs of
             Inl e \<Rightarrow> Inl e
           | Inr stored \<Rightarrow> Inr \<lparr>gj_type = ty, features = fs, features_set = stored\<rparr>))"

text \<open>\<open>GeoJSON.append_feature\<close>.  An exception leaves the object as it was, so the
  error result carries no new state.\<close>

definition append_feature :: "'v GeoJSON \<Rightarrow> 'v feature_dict \<Rightarrow> py_error + 'v GeoJSON" where
  "append_feature g feature_inputs =
     (case Feature_init feature_inputs of
        Inl e \<Rightarrow> Inl e
      | Inr feature \<Rightarrow>
          (case set_contains (features_set g) feature of
             Inl e \<Rightarrow> Inl e
           | Inr True \<Rightarrow> Inr g
           | Inr False \<Rightarrow>
               (case set_add (features_set g) feature of
                  Inl e \<Rightarrow> Inl e
                | Inr stored \<Rightarrow>
                    Inr (g\<lparr>features := features g @ [feature], features_set := stored\<rparr>))))"

text \<open>
  The object invariant that the constructor sets up: every feature of the list has a
  hash (a \<open>captured_at\<close> property), and the set holds exactly the hashes of the list.
\<close>

definition has_hash :: "'v Feature \<Rightarrow> bool" where
  "has_hash f = (case Feature_hash f of Inl _ \<Rightarrow> False | Inr _ \<Rightarrow> True)"

definition geojson_inv :: "'v GeoJSON \<Rightarrow> bool" where
  "geojson_inv g \<longleftrightarrow>
     list_all has_hash (features g)
     \<and> list_all has_hash (features_set g)
     \<and> set (map Feature_hash (features_set g)) = set (map Feature_hash (features g))"

text \<open>No two positions of a feature list hold equal features.\<close>

definition no_duplicates :: "'v Feature list \<Rightarrow> bool" where
  "no_duplicates fs \<longleftrightarrow> distinct (map Feature_hash fs)"

section \<open>GeoJSON: proofs\<close>


lemma Feature_eq_hash:
  "Feature_hash x = Inr h \<Longrightarrow> Feature_hash f = Inr k \<Longrightarrow> Feature_eq x f = Inr (h = k)"
  by (auto simp: Feature_hash_def Feature_eq_def split: sum.splits)

lemma set_contains_hash:
  assumes "list_all has_hash stored" and "Feature_hash f = Inr k"
  shows "set_contains stored f = Inr (Inr k \<in> set (map Feature_hash stored))"
proof -
  have "list_ex (\<lambda>x. Feature_hash x = Inr k \<and> Feature_eq x f = Inr True) stored
        \<longleftrightarrow> Inr k \<in> set (map Feature_hash stored)"
  proof
    assume "list_ex (\<lambda>x. Feature_hash x = Inr k \<and> Feature_eq x f = Inr True) stored"
    then obtain x where "x \<in> set stored" "Feature_hash x = Inr k"
      by (auto simp: list_ex_iff)
    then show "Inr k \<in> set (map Feature_hash stored)"
      by (metis image_eqI set_map)
  next
    assume "Inr k \<in> set (map Feature_hash stored)"
    then obtain x where x: "x \<in> set stored" "Feature_hash x = Inr k"
      by auto
    with assms(2) have "Feature_eq x f = Inr True"
      by (simp add: Feature_eq_hash)
    with x show "list_ex (\<lambda>x. Feature_hash x = Inr k \<and> Feature_eq x f = Inr True) stored"
      by (auto simp: list_ex_iff)
  qed
  then show ?thesis
    using assms(2) by (simp add: set_contains_def)
qed

lemma has_hash_iff: "has_hash f \<longleftrightarrow> (\<exists>k. Feature_hash f = Inr k)"
  by (cases "Feature_hash f") (auto simp: has_hash_def)

lemma set_add_inv:
  assumes "list_all has_hash stored" and "Feature_hash f = Inr k"
  shows "\<exists>stored'. set_add stored f = Inr stored' \<and> list_all has_hash stored'
     \<and> set (map Feature_hash stored') = insert (Inr k) (set (map Feature_hash stored))"
proof (cases "Inr k \<in> set (map Feature_hash stored)")
  case True
  with assms show ?thesis
    by (auto simp: set_add_def set_contains_hash)
next
  case False
  have "has_hash f"
    using assms(2) by (simp add: has_hash_def)
  with False assms show ?thesis
    by (auto simp: set_add_def set_contains_hash)
qed

lemma set_of_list_inv:
  assumes "list_all has_hash stored" and "list_all has_hash fs"
  shows "\<exists>stored'. set_of_list stored fs = Inr stored' \<and> list_all has_hash stored'
     \<and> set (map Feature_hash stored') = set (map Feature_hash stored) \<union> set (map Feature_hash fs)"
  using assms
proof (induction fs arbitrary: stored)
  case Nil
  then show ?case by simp
next
  case (Cons f fs)
  from Cons.prems obtain k where k: "Feature_hash f = Inr k"
    by (auto simp: has_hash_iff)
  from set_add_inv [OF Cons.prems(1) k] obtain s1 where
    s1: "set_add stored f = Inr s1" "list_all has_hash s1"
        "set (map Feature_hash s1) = insert (Inr k) (set (map Feature_hash stored))"
    by blast
  from Cons.IH [OF s1(2)] Cons.prems(2) obtain s2 where
    s2: "set_of_list s1 fs = Inr s2" "list_all has_hash s2"
        "set (map Feature_hash s2) = set (map Feature_hash s1) \<union> set (map Feature_hash fs)"
    by auto
  show ?case
    using s1 s2 k by auto
qed


lemma GeoJSON_init_inv:
  "Feature_init_all fds = Inr fs \<Longrightarrow> list_all has_hash fs
   \<Longrightarrow> \<exists>g. GeoJSON_init ty fds = Inr g \<and> features g = fs \<and> geojson_inv g"
  using set_of_list_inv [of "[]" fs]
  by (auto simp: GeoJSON_init_def geojson_inv_def)

lemma list_ex_eq_hash:
  assumes "list_all has_hash fs" and "Feature_hash f = Inr k"
  shows "list_ex (\<lambda>x. Feature_eq x f = Inr True) fs \<longleftrightarrow> Inr k \<in> set (map Feature_hash fs)"
proof
  assume "list_ex (\<lambda>x. Feature_eq x f = Inr True) fs"
  then obtain x where x: "x \<in> set fs" "Feature_eq x f = Inr True"
    by (auto simp: list_ex_iff)
  with assms(1) obtain h where h: "Feature_hash x = Inr h"
    by (auto simp: list_all_iff has_hash_iff)
  with x(2) assms(2) have "h = k"
    by (simp add: Feature_eq_hash)
  with h x(1) show "Inr k \<in> set (map Feature_hash fs)"
    by (metis image_eqI set_map)
next
  assume "Inr k \<in> set (map Feature_hash fs)"
  then obtain x where x: "x \<in> set fs" "Feature_hash x = Inr k"
    by auto
  with assms(2) have "Feature_eq x f = Inr True"
    by (simp add: Feature_eq_hash)
  with x(1) show "list_ex (\<lambda>x. Feature_eq x f = Inr True) fs"
    by (auto simp: list_ex_iff)
qed

lemma append_feature_present:
  assumes "geojson_inv g" and "Feature_init d = Inr f" and "Feature_hash f = Inr k"
    and "Inr k \<in> set (map Feature_hash (features g))"
  shows "append_feature g d = Inr g"
  using assms by (simp add: append_feature_def geojson_inv_def set_contains_hash)

lemma append_feature_absent:
  assumes inv: "geojson_inv g" and f: "Feature_init d = Inr f" and k: "Feature_hash f = Inr k"
    and new: "Inr k \<notin> set (map Feature_hash (features g))"
  shows "\<exists>g'. append_feature g d = Inr g' \<and> features g' = features g @ [f] \<and> geojson_inv g'"
proof -
  have st: "list_all has_hash (features_set g)"
    and eq: "set (map Feature_hash (features_set g)) = set (map Feature_hash (features g))"
    and fs: "list_all has_hash (features g)"
    using inv by (simp_all add: geojson_inv_def)
  have hf: "has_hash f"
    using k by (simp add: has_hash_def)
  have c: "set_contains (features_set g) f = Inr False"
    using new eq by (simp add: set_contains_hash [OF st k])
  then have a: "set_add (features_set g) f = Inr (features_set g @ [f])"
    by (simp add: set_add_def)
  have "geojson_inv (g\<lparr>features := features g @ [f], features_set := features_set g @ [f]\<rparr>)"
    using st eq fs hf by (simp add: geojson_inv_def)
  then show ?thesis
    using f c a by (simp add: append_feature_def)
qed

lemma append_feature_raises:
  "Feature_init d = Inl e \<Longrightarrow> append_feature g d = Inl e"
  "Feature_init d = Inr f \<Longrightarrow> Feature_hash f = Inl e \<Longrightarrow> append_feature g d = Inl e"
  by (simp_all add: append_feature_def set_contains_def)

text \<open>
  Claim C10.  \<open>append_feature\<close> keeps the feature list free of duplicates and is
  idempotent.  For a GeoJSON object in the state its constructor and this method leave
  it in, and a feature dictionary from which a feature with a \<open>captured_at\<close> property
  is built: the call returns; if the list already holds a feature equal to the new one
  under \<open>Feature.__eq__\<close> the list is unchanged, otherwise exactly the new feature is
  appended at the end; the object invariant is kept; a list without duplicates stays
  without duplicates; and a second call with the same dictionary changes nothing.
\<close>

theorem append_feature_no_duplicates_idempotent:
  assumes inv: "geojson_inv g" and f: "Feature_init d = Inr f" and k: "Feature_hash f = Inr k"
  shows "\<exists>g'. append_feature g d = Inr g'
     \<and> features g' =
         (if list_ex (\<lambda>x. Feature_eq x f = Inr True) (features g) then features g
          else features g @ [f])
     \<and> geojson_inv g'
     \<and> (no_duplicates (features g) \<longrightarrow> no_duplicates (features g'))
     \<and> append_feature g' d = Inr g'"
proof -
  have fs: "list_all has_hash (features g)"
    using inv by (simp add: geojson_inv_def)
  note ex = list_ex_eq_hash [OF fs k]
  show ?thesis
  proof (cases "Inr k \<in> set (map Feature_hash (features g))")
    case True
    then have "append_feature g d = Inr g"
      by (rule append_feature_present [OF inv f k])
    with True inv ex show ?thesis
      by simp
  next
    case False
    from append_feature_absent [OF inv f k False] obtain g' where
      g': "append_feature g d = Inr g'" "features g' = features g @ [f]" "geojson_inv g'"
      by blast
    have "Inr k \<in> set (map Feature_hash (features g'))"
      using g'(2) k by simp
    then have again: "append_feature g' d = Inr g'"
      by (rule append_feature_present [OF g'(3) f k])
    have "no_duplicates (features g')" if "no_duplicates (features g)"
      using that False g'(2) k by (simp add: no_duplicates_def)
    with g' again False ex show ?thesis
      by simp
  qed
qed

theorem append_feature_no_duplicates_idempotent_witness:
  "geojson_inv
     \<lparr>gj_type = ''FeatureCollection'',
      features = [\<lparr>ftype = ''Feature'',
          geometry = \<lparr>geom_type = ''Point'', coordinates = \<lparr>longitude = 13, latitude = 11\<rparr>\<rparr>,
          properties = [(''captured_at'', 1577836800000 :: int)]\<rparr>],
      features_set = [\<lparr>ftype = ''Feature'',
          geometry = \<lparr>geom_type = ''Point'', coordinates = \<lparr>longitude = 13, latitude = 11\<rparr>\<rparr>,
          properties = [(''captured_at'', 1577836800000)]\<rparr>]\<rparr>
   \<and> Feature_init
        \<lparr>fd_geometry = \<lparr>gd_type = ''Point'', gd_coordinates = [13, 12]\<rparr>,
         fd_properties = [(''captured_at'', 1577836800000 :: int)]\<rparr>
       = Inr \<lparr>ftype = ''Feature'',
          geometry = \<lparr>geom_type = ''Point'', coordinates = \<lparr>longitude = 13, latitude = 12\<rparr>\<rparr>,
          properties = [(''captured_at'', 1577836800000)]\<rparr>
   \<and> (\<exists>g'. append_feature
        \<lparr>gj_type = ''FeatureCollection'',
         features = [\<lparr>ftype = ''Feature'',
          geometry = \<lparr>geom_type = ''Point'', coordinates = \<lparr>longitude = 13, latitude = 11\<rparr>\<rparr>,
          properties = [(''captured_at'', 1577836800000 :: int)]\<rparr>],
         features_set = [\<lparr>ftype = ''Feature'',
          geometry = \<lparr>geom_type = ''Point'', coordinates = \<lparr>longitude = 13, latitude = 11\<rparr>\<rparr>,
          properties = [(''captured_at'', 1577836800000)]\<rparr>]\<rparr>
        \<lparr>fd_geometry = \<lparr>gd_type = ''Point'', gd_coordinates = [13, 12]\<rparr>,
         fd_properties = [(''captured_at'', 1577836800000 :: int)]\<rparr> = Inr g'
      \<and> length (features g') = 2 \<and> no_duplicates (features g'))"
proof -
  let ?f1 = "\<lparr>ftype = ''Feature'',
          geometry = \<lparr>geom_type = ''Point'', coordinates = \<lparr>longitude = 13, latitude = 11\<rparr>\<rparr>,
          properties = [(''captured_at'', 1577836800000 :: int)]\<rparr>"
  let ?f2 = "\<lparr>ftype = ''Feature'',
          geometry = \<lparr>geom_type = ''Point'', coordinates = \<lparr>longitude = 13, latitude = 12\<rparr>\<rparr>,
          properties = [(''captured_at'', 1577836800000 :: int)]\<rparr>"
  let ?g = "\<lparr>gj_type = ''FeatureCollection'', features = [?f1], features_set = [?f1]\<rparr>"
  let ?d = "\<lparr>fd_geometry = \<lparr>gd_type = ''Point'', gd_coordinates = [13, 12]\<rparr>,
         fd_properties = [(''captured_at'', 1577836800000 :: int)]\<rparr>"
  have h1: "geojson_inv ?g"
    by (simp add: geojson_inv_def has_hash_def Feature_hash_def captured_at_def)
  have h2: "Feature_init ?d = Inr ?f2"
    by (simp add: Feature_init_def Geometry_init_def)
  have h3: "Feature_hash ?f2 = Inr (''Feature'', (12, 13), 1577836800000)"
    by (simp add: Feature_hash_def captured_at_def)
  have nd: "no_duplicates (features ?g)"
    by (simp add: no_duplicates_def)
  have ne: "\<not> list_ex (\<lambda>x. Feature_eq x ?f2 = Inr True) (features ?g)"
    by (simp add: Feature_eq_def)
  from append_feature_no_duplicates_idempotent [OF h1 h2 h3] nd ne h1 h2 show ?thesis
    by auto
qed

section \<open>The pid stage of \<open>download_svi\<close>\<close>

text \<open>
  The file system is a map from paths to file contents; the contents are any type.
  \<open>_get_pids\<close> is the only entry to panorama ID discovery; it is a parameter here,
  an arbitrary transformer of the file system given the path it is to write, and each
  call is recorded in the trace of stages.
\<close>

type_synonym path = string

type_synonym 'c files = "path \<rightharpoonup> 'c"

datatype stage = Discovery path | ReusePidFile path | CopyAugmentedCache path

definition path_join :: "path \<Rightarrow> string \<Rightarrow> path" where
  "path_join d name = d @ ''/'' @ name"

definition dir_cache :: "path \<Rightarrow> path" where
  "dir_cache dir_output = path_join dir_output ''cache_zensvi''"

definition cache_pids_augmented :: "path \<Rightarrow> path" where
  "cache_pids_augmented dir_output = path_join (dir_cache dir_output) ''pids_augemented.csv''"

definition file_exists :: "'c files \<Rightarrow> path \<Rightarrow> bool" where
  "file_exists fs p = (case fs p of None \<Rightarrow> False | Some _ \<Rightarrow> True)"

text \<open>\<open>shutil.copy2(src, dst)\<close> for an existing source.\<close>

definition copy2 :: "'c files \<Rightarrow> path \<Rightarrow> path \<Rightarrow> 'c files" where
  "copy2 fs src dst = (case fs src of None \<Rightarrow> fs | Some c \<Rightarrow> fs(dst \<mapsto> c))"

text \<open>
  \<open>GSVDownloader.download_svi\<close> up to the point where the pid table is read: the new
  file system, the pid path the rest of the run reads (None when the caller gave
  none and the first two branches were both skipped, which cannot happen), and the
  stages entered.
\<close>

definition gsv_download_svi_pids ::
  "('c files \<Rightarrow> path \<Rightarrow> 'c files) \<Rightarrow> 'c files \<Rightarrow> path \<Rightarrow> path option \<Rightarrow> bool
     \<Rightarrow> 'c files \<times> path option \<times> stage list" where
  "gsv_download_svi_pids get_pids fs dir_output path_pid update_pids =
     (if path_pid = None \<and> file_exists fs (cache_pids_augmented dir_output) = False then
        (let p = path_join dir_output ''gsv_pids.csv'' in
         if file_exists fs p \<and> update_pids = False then (fs, Some p, [ReusePidFile p])
         else (get_pids fs p, Some p, [Discovery p]))
      else if file_exists fs (cache_pids_augmented dir_output) then
        (let p = path_join dir_output ''gsv_pids.csv'' in
         (copy2 fs (cache_pids_augmented dir_output) p, Some p, [CopyAugmentedCache p]))
      else (fs, path_pid, []))"

text \<open>\<open>MLYDownloader.download_svi\<close> up to the same point.\<close>

definition mly_download_svi_pids ::
  "('c files \<Rightarrow> path \<Rightarrow> 'c files) \<Rightarrow> 'c files \<Rightarrow> path \<Rightarrow> path option \<Rightarrow> bool
     \<Rightarrow> 'c files \<times> path \<times> stage list" where
  "mly_download_svi_pids get_pids fs dir_output path_pid update_pids =
     (case path_pid of
        None \<Rightarrow>
          (let p = path_join dir_output ''mly_pids.csv'' in
           if file_exists fs p \<and> update_pids = False then (fs, p, [ReusePidFile p])
           else (get_pids fs p, p, [Discovery p]))
      | Some p \<Rightarrow>
          if file_exists fs p then (fs, p, [ReusePidFile p])
          else (get_pids fs p, p, [Discovery p]))"

text \<open>The final pid table of a run: the caller's path, or the provider's default file.\<close>

definition pids_final :: "string \<Rightarrow> path \<Rightarrow> path option \<Rightarrow> path" where
  "pids_final default_name dir_output path_pid =
     (case path_pid of None \<Rightarrow> path_join dir_output default_name | Some p \<Rightarrow> p)"

definition is_discovery :: "stage \<Rightarrow> bool" where
  "is_discovery s = (case s of Discovery _ \<Rightarrow> True | _ \<Rightarrow> False)"

section \<open>The pid stage: proofs\<close>

lemma mly_reuse:
  assumes "file_exists fs (pids_final ''mly_pids.csv'' dir_output path_pid)"
  shows "mly_download_svi_pids get_pids fs dir_output path_pid False
         = (fs, pids_final ''mly_pids.csv'' dir_output path_pid,
            [ReusePidFile (pids_final ''mly_pids.csv'' dir_output path_pid)])"
  using assms by (cases path_pid) (simp_all add: mly_download_svi_pids_def pids_final_def Let_def)

lemma gsv_reuse:
  assumes "file_exists fs (pids_final ''gsv_pids.csv'' dir_output path_pid)"
  shows "gsv_download_svi_pids get_pids fs dir_output path_pid False =
      (if file_exists fs (cache_pids_augmented dir_output)
       then (copy2 fs (cache_pids_augmented dir_output) (path_join dir_output ''gsv_pids.csv''),
             Some (path_join dir_output ''gsv_pids.csv''),
             [CopyAugmentedCache (path_join dir_output ''gsv_pids.csv'')])
       else (fs, Some (pids_final ''gsv_pids.csv'' dir_output path_pid),
             case path_pid of
               None \<Rightarrow> [ReusePidFile (path_join dir_output ''gsv_pids.csv'')]
             | Some _ \<Rightarrow> []))"
  using assms by (cases path_pid) (simp_all add: gsv_download_svi_pids_def pids_final_def Let_def)

text \<open>
  Claim C8, as stated, at a state where it fails.  The output directory holds
  \<open>gsv_pids.csv\<close> with contents 1 and the augmented cache with contents 2
  (a run stopped after augmentation wrote the cache and before the pid file was
  rewritten).  With \<open>update_pids\<close> false no discovery is entered, but the pid file
  is not used as it was: it is overwritten with the cache.
\<close>

theorem gsv_pid_file_used_as_is_counterexample:
  "\<not> (case gsv_download_svi_pids (\<lambda>fs p. fs)
            [''out/gsv_pids.csv'' \<mapsto> (1::nat), ''out/cache_zensvi/pids_augemented.csv'' \<mapsto> 2]
            ''out'' None False
        of (fs', p, tr) \<Rightarrow>
          \<not> list_ex is_discovery tr \<and> p = Some ''out/gsv_pids.csv''
          \<and> fs' ''out/gsv_pids.csv'' = Some 1)"
  by (simp add: gsv_download_svi_pids_def file_exists_def cache_pids_augmented_def dir_cache_def
      path_join_def copy2_def Let_def is_discovery_def)

text \<open>
  Claim C8, amended.  With \<open>update_pids\<close> false and the final pid table present, no
  run enters discovery.  The Mapillary downloader leaves the file system as it is and
  reads that file.  The GSV downloader does the same when there is no augmented cache;
  when \<open>cache_zensvi/pids_augemented.csv\<close> exists it copies the cache over
  \<open>gsv_pids.csv\<close> and reads \<open>gsv_pids.csv\<close>.
\<close>

theorem download_svi_no_discovery_when_pids_exist:
  "(file_exists fs (pids_final ''mly_pids.csv'' dir_output path_pid) \<longrightarrow>
      mly_download_svi_pids get_pids fs dir_output path_pid False
        = (fs, pids_final ''mly_pids.csv'' dir_output path_pid,
           [ReusePidFile (pids_final ''mly_pids.csv'' dir_output path_pid)]))
   \<and> (file_exists fs (pids_final ''gsv_pids.csv'' dir_output path_pid) \<longrightarrow>
      (case gsv_download_svi_pids get_pids fs dir_output path_pid False of
         (fs', p, tr) \<Rightarrow>
           \<not> list_ex is_discovery tr
           \<and> (if file_exists fs (cache_pids_augmented dir_output)
                then p = Some (path_join dir_output ''gsv_pids.csv'')
                     \<and> fs' = copy2 fs (cache_pids_augmented dir_output)
                                (path_join dir_output ''gsv_pids.csv'')
                else p = Some (pids_final ''gsv_pids.csv'' dir_output path_pid) \<and> fs' = fs)))"
proof (intro conjI impI)
  assume "file_exists fs (pids_final ''mly_pids.csv'' dir_output path_pid)"
  then show "mly_download_svi_pids get_pids fs dir_output path_pid False
        = (fs, pids_final ''mly_pids.csv'' dir_output path_pid,
           [ReusePidFile (pids_final ''mly_pids.csv'' dir_output path_pid)])"
    by (rule mly_reuse)
next
  assume "file_exists fs (pids_final ''gsv_pids.csv'' dir_output path_pid)"
  from gsv_reuse [OF this, of get_pids]
  show "case gsv_download_svi_pids get_pids fs dir_output path_pid False of
         (fs', p, tr) \<Rightarrow>
           \<not> list_ex is_discovery tr
           \<and> (if file_exists fs (cache_pids_augmented dir_output)
                then p = Some (path_join dir_output ''gsv_pids.csv'')
                     \<and> fs' = copy2 fs (cache_pids_augmented dir_output)
                                (path_join dir_output ''gsv_pids.csv'')
                else p = Some (pids_final ''gsv_pids.csv'' dir_output path_pid) \<and> fs' = fs)"
    by (cases path_pid) (simp_all add: is_discovery_def)
qed

theorem download_svi_no_discovery_when_pids_exist_witness:
  "file_exists [''out/mly_pids.csv'' \<mapsto> (1::nat), ''out/gsv_pids.csv'' \<mapsto> 2]
     (pids_final ''mly_pids.csv'' ''out'' None)
   \<and> file_exists [''out/mly_pids.csv'' \<mapsto> (1::nat), ''out/gsv_pids.csv'' \<mapsto> 2]
     (pids_final ''gsv_pids.csv'' ''out'' None)
   \<and> mly_download_svi_pids (\<lambda>fs p. fs(p \<mapsto> 7))
        [''out/mly_pids.csv'' \<mapsto> (1::nat), ''out/gsv_pids.csv'' \<mapsto> 2] ''out'' None False
      = ([''out/mly_pids.csv'' \<mapsto> 1, ''out/gsv_pids.csv'' \<mapsto> 2], ''out/mly_pids.csv'',
         [ReusePidFile ''out/mly_pids.csv''])
   \<and> gsv_download_svi_pids (\<lambda>fs p. fs(p \<mapsto> 7))
        [''out/mly_pids.csv'' \<mapsto> (1::nat), ''out/gsv_pids.csv'' \<mapsto> 2] ''out'' None False
      = ([''out/mly_pids.csv'' \<mapsto> 1, ''out/gsv_pids.csv'' \<mapsto> 2], Some ''out/gsv_pids.csv'',
         [ReusePidFile ''out/gsv_pids.csv''])"
proof -
  let ?fs = "[''out/mly_pids.csv'' \<mapsto> (1::nat), ''out/gsv_pids.csv'' \<mapsto> 2]"
  have h1: "file_exists ?fs (pids_final ''mly_pids.csv'' ''out'' None)"
    by (simp add: file_exists_def pids_final_def path_join_def)
  have h2: "file_exists ?fs (pids_final ''gsv_pids.csv'' ''out'' None)"
    by (simp add: file_exists_def pids_final_def path_join_def)
  have nc: "\<not> file_exists ?fs (cache_pids_augmented ''out'')"
    by (simp add: file_exists_def cache_pids_augmented_def dir_cache_def path_join_def)
  have pf: "pids_final ''mly_pids.csv'' ''out'' None = ''out/mly_pids.csv''"
    "pids_final ''gsv_pids.csv'' ''out'' None = ''out/gsv_pids.csv''"
    by (simp_all add: pids_final_def path_join_def)
  have g: "gsv_download_svi_pids (\<lambda>fs p. fs(p \<mapsto> 7)) ?fs ''out'' None False
      = (?fs, Some ''out/gsv_pids.csv'', [ReusePidFile ''out/gsv_pids.csv''])"
    using h2 nc by (simp add: gsv_download_svi_pids_def Let_def pf path_join_def)
  from download_svi_no_discovery_when_pids_exist
    [of ?fs "''out''" None "\<lambda>fs p. fs(p \<mapsto> 7)"] h1 h2 g pf
  show ?thesis
    by simp
qed

section \<open>Dates: \<open>datetime.strptime\<close> with the format \<open>%Y-%m-%d\<close>\<close>

text \<open>
  Both date filters parse their bounds with \<open>datetime.datetime.strptime(s, "%Y-%m-%d")\<close>.
  CPython turns the format into the regular expression
  \<^verbatim>\<open>(?P<Y>\d\d\d\d)-(?P<m>1[0-2]|0[1-9]|[1-9])-(?P<d>3[0-1]|[1-2]\d|0[1-9]|[1-9]| [1-9])\<close>,
  matches it at the start of the string, raises ValueError when it does not match or
  when text is left over, and then builds the date, which raises ValueError for year 0
  and for a day the month does not have.  Strings are ASCII here.
\<close>

definition is_digit :: "char \<Rightarrow> bool" where
  "is_digit c \<longleftrightarrow> 48 \<le> (of_char c :: nat) \<and> (of_char c :: nat) \<le> 57"

definition digit_val :: "char \<Rightarrow> nat" where
  "digit_val c = of_char c - 48"

definition digit_in :: "char \<Rightarrow> nat \<Rightarrow> nat \<Rightarrow> bool" where
  "digit_in c lo hi \<longleftrightarrow> is_digit c \<and> lo \<le> digit_val c \<and> digit_val c \<le> hi"

text \<open>The month group followed by the dash: the alternatives in the order of the
  regular expression; at most one of them can be followed by a dash.\<close>

fun match_month :: "string \<Rightarrow> (nat \<times> string) option" where
  "match_month (c1 # c2 # c3 # r) =
     (if c1 = CHR ''1'' \<and> digit_in c2 0 2 \<and> c3 = CHR ''-'' then Some (10 + digit_val c2, r)
      else if c1 = CHR ''0'' \<and> digit_in c2 1 9 \<and> c3 = CHR ''-'' then Some (digit_val c2, r)
      else if digit_in c1 1 9 \<and> c2 = CHR ''-'' then Some (digit_val c1, c3 # r)
      else None)"
| "match_month [c1, c2] =
     (if digit_in c1 1 9 \<and> c2 = CHR ''-'' then Some (digit_val c1, []) else None)"
| "match_month _ = None"

text \<open>The day group: the first alternative that matches wins, whatever follows.\<close>

fun match_day :: "string \<Rightarrow> (nat \<times> string) option" where
  "match_day (c1 # c2 # r) =
     (if c1 = CHR ''3'' \<and> digit_in c2 0 1 then Some (30 + digit_val c2, r)
      else if digit_in c1 1 2 \<and> is_digit c2 then Some (10 * digit_val c1 + digit_val c2, r)
      else if c1 = CHR ''0'' \<and> digit_in c2 1 9 then Some (digit_val c2, r)
      else if digit_in c1 1 9 then Some (digit_val c1, c2 # r)
      else if c1 = CHR '' '' \<and> digit_in c2 1 9 then Some (digit_val c2, r)
      else None)"
| "match_day [c1] = (if digit_in c1 1 9 then Some (digit_val c1, []) else None)"
| "match_day [] = None"

definition is_leap :: "nat \<Rightarrow> bool" where
  "is_leap y \<longleftrightarrow> y mod 4 = 0 \<and> (y mod 100 \<noteq> 0 \<or> y mod 400 = 0)"

definition month_lengths :: "nat \<Rightarrow> nat list" where
  "month_lengths y = [31, if is_leap y then 29 else 28, 31, 30, 31, 30, 31, 31, 30, 31, 30, 31]"

definition days_in_month :: "nat \<Rightarrow> nat \<Rightarrow> nat" where
  "days_in_month y m = month_lengths y ! (m - 1)"

text \<open>A calendar date (year, month, day) that \<open>datetime\<close> accepts.\<close>

definition valid_date :: "nat \<Rightarrow> nat \<Rightarrow> nat \<Rightarrow> bool" where
  "valid_date y m d \<longleftrightarrow>
     1 \<le> y \<and> y \<le> 9999 \<and> 1 \<le> m \<and> m \<le> 12 \<and> 1 \<le> d \<and> d \<le> days_in_month y m"

definition strptime :: "string \<Rightarrow> (nat \<times> nat \<times> nat) option" where
  "strptime s =
     (case s of
        y1 # y2 # y3 # y4 # dash # r \<Rightarrow>
          if is_digit y1 \<and> is_digit y2 \<and> is_digit y3 \<and> is_digit y4 \<and> dash = CHR ''-'' then
            (case match_month r of
               None \<Rightarrow> None
             | Some (m, r') \<Rightarrow>
                 (case match_day r' of
                    None \<Rightarrow> None
                  | Some (d, rest) \<Rightarrow>
                      (let y = 1000 * digit_val y1 + 100 * digit_val y2
                                + 10 * digit_val y3 + digit_val y4
                       in if rest = [] \<and> valid_date y m d then Some (y, m, d) else None)))
          else None
      | _ \<Rightarrow> None)"

text \<open>
  Midnight of a date as milliseconds since the Unix epoch, through the proleptic
  Gregorian ordinal of \<open>datetime\<close> (1 January of year 1 is day 1; 1 January 1970 is
  day 719163).
\<close>

definition days_before_year :: "nat \<Rightarrow> nat" where
  "days_before_year y = (y - 1) * 365 + (y - 1) div 4 - (y - 1) div 100 + (y - 1) div 400"

definition days_before_month :: "nat \<Rightarrow> nat \<Rightarrow> nat" where
  "days_before_month y m = sum_list (take (m - 1) (month_lengths y))"

definition toordinal :: "nat \<times> nat \<times> nat \<Rightarrow> nat" where
  "toordinal ymd = (case ymd of (y, m, d) \<Rightarrow> days_before_year y + days_before_month y m + d)"

definition epoch_ms :: "nat \<times> nat \<times> nat \<Rightarrow> int" where
  "epoch_ms ymd = (int (toordinal ymd) - 719163) * 86400000"

section \<open>Tables and the date filters\<close>

text \<open>
  A row of a pandas table maps column names to cells (an association list); a cell
  that is missing reads as NaN, as it does after \<open>concat\<close> and \<open>merge\<close>.  A table
  read from CSV is its header, the list of its columns, with its rows: the header is
  what decides whether \<open>df[c]\<close> raises KeyError, also when there is no row.
\<close>

datatype cell = NaN | IntC int | FloatC real | StrC string

type_synonym row = "(string \<times> cell) list"

definition cell_of :: "row \<Rightarrow> string \<Rightarrow> cell" where
  "cell_of r c = (case map_of r c of None \<Rightarrow> NaN | Some v \<Rightarrow> v)"

definition drop_column :: "string \<Rightarrow> row \<Rightarrow> row" where
  "drop_column c r = filter (\<lambda>kv. fst kv \<noteq> c) r"

record DataFrame =
  df_columns :: "string list"
  df_rows :: "row list"

definition has_columns :: "DataFrame \<Rightarrow> string list \<Rightarrow> bool" where
  "has_columns df cs = list_all (\<lambda>c. c \<in> set (df_columns df)) cs"

text \<open>
  A pandas timestamp counts nanoseconds in 64 bits; a count of milliseconds converts
  when its nanoseconds fit (\<open>Timestamp.min\<close> is 1677-09-21, \<open>Timestamp.max\<close> is
  2262-04-11), and \<open>to_datetime\<close> raises OutOfBoundsDatetime, a ValueError,
  otherwise.  Milliseconds are exact numbers here.
\<close>

definition in_ns_range :: "real \<Rightarrow> bool" where
  "in_ns_range ms \<longleftrightarrow>
     - 9223372036854775807 \<le> ms * 1000000 \<and> ms * 1000000 \<le> 9223372036854775807"

text \<open>Converting a column entry by entry; the first entry that cannot be converted
  raises.\<close>

fun build_column :: "('r \<Rightarrow> py_error + 'a) \<Rightarrow> 'r list \<Rightarrow> py_error + 'a list" where
  "build_column f [] = Inr []"
| "build_column f (r # rs) =
     (case f r of
        Inl e \<Rightarrow> Inl e
      | Inr d \<Rightarrow> (case build_column f rs of Inl e \<Rightarrow> Inl e | Inr ds \<Rightarrow> Inr (d # ds)))"

text \<open>\<open>pd.to_datetime(pid_df['captured_at'], unit='ms')\<close> on one cell of the column:
  NaN becomes NaT (None), a number is a count of milliseconds and raises when it is out
  of the timestamp range, text that is no number raises.  The filter converts cells
  only after it has found the column in the header; a row without the cell is a null
  of that column.\<close>

definition mly_date :: "row \<Rightarrow> py_error + real option" where
  "mly_date r =
     (case cell_of r ''captured_at'' of
        NaN \<Rightarrow> Inr None
      | IntC n \<Rightarrow>
          if in_ns_range (real_of_int n) then Inr (Some (real_of_int n))
          else Inl (ValueError ''cannot convert input with unit ms'')
      | FloatC x \<Rightarrow>
          if in_ns_range x then Inr (Some x)
          else Inl (ValueError ''cannot convert input with unit ms'')
      | StrC _ \<Rightarrow> Inl (ValueError ''non convertible value with the unit ms''))"

text \<open>
  \<open>pd.to_datetime(year.astype(str) + "-" + month.astype(str), format="%Y-%m")\<close> on
  one row: the text of an integer year of four digits and an integer month from 1 to
  12 parses to the first day of that month, which must lie in the timestamp range.  A
  null year or month prints as \<open>nan\<close> (and turns the whole column to floats, which
  print as \<open>2019.0\<close>), text that the format does not match, and \<open>to_datetime\<close>
  raises.  The filter converts rows only after it has found both columns in the
  header; a row without the cell is a null of that column.
\<close>

definition gsv_date :: "row \<Rightarrow> py_error + real option" where
  "gsv_date r =
     (case (cell_of r ''year'', cell_of r ''month'') of
        (IntC y, IntC m) \<Rightarrow>
          if 1000 \<le> y \<and> y \<le> 9999 \<and> 1 \<le> m \<and> m \<le> 12 then
            (if in_ns_range (real_of_int (epoch_ms (nat y, nat m, 1)))
             then Inr (Some (real_of_int (epoch_ms (nat y, nat m, 1))))
             else Inl (ValueError ''Out of bounds nanosecond timestamp''))
          else Inl (ValueError ''time data does not match format %Y-%m'')
      | _ \<Rightarrow> Inl (ValueError ''time data does not match format %Y-%m''))"

text \<open>The error the two \<open>except ValueError\<close> handlers raise, for \<open>start_date\<close> and
  for \<open>end_date\<close>.\<close>

definition incorrect_format :: "string \<Rightarrow> py_error" where
  "incorrect_format name = ValueError (''Incorrect '' @ name @ '' format, should be YYYY-MM-DD'')"

text \<open>The \<open>try: strptime ... except ValueError: raise ValueError(...)\<close> blocks; a bound
  that is None is not parsed.  The bound becomes the midnight that starts its day.\<close>

definition parse_bound :: "string \<Rightarrow> string option \<Rightarrow> py_error + real option" where
  "parse_bound name bound =
     (case bound of
        None \<Rightarrow> Inr None
      | Some s \<Rightarrow>
          (case strptime s of
             None \<Rightarrow> Inl (incorrect_format name)
           | Some ymd \<Rightarrow> Inr (Some (real_of_int (epoch_ms ymd)))))"

text \<open>\<open>pid_df[pid_df['date'] >= start_date] if start_date is not None else pid_df\<close>, on
  rows paired with their date; a comparison with NaT is false.\<close>

definition keep_from :: "real option \<Rightarrow> (real option \<times> row) list \<Rightarrow> (real option \<times> row) list" where
  "keep_from start_date rows =
     (case start_date of
        None \<Rightarrow> rows
      | Some s \<Rightarrow> filter (\<lambda>dr. case fst dr of None \<Rightarrow> False | Some d \<Rightarrow> d \<ge> s) rows)"

definition keep_until :: "real option \<Rightarrow> (real option \<times> row) list \<Rightarrow> (real option \<times> row) list" where
  "keep_until end_date rows =
     (case end_date of
        None \<Rightarrow> rows
      | Some e \<Rightarrow> filter (\<lambda>dr. case fst dr of None \<Rightarrow> False | Some d \<Rightarrow> d \<le> e) rows)"

text \<open>
  The body both \<open>_filter_pids_date\<close> methods share, in the order of the source.
  First the date column is built: reading a column the table does not have raises
  KeyError, and a cell that does not convert raises ValueError.  Then the bounds are
  parsed, the two filters run, and the temporary \<open>date\<close> column is dropped.  The
  comparison of a date with a bound is exact, also for a bound outside the timestamp
  range.
\<close>

definition filter_pids_date ::
  "string list \<Rightarrow> (row \<Rightarrow> py_error + real option) \<Rightarrow> DataFrame \<Rightarrow> string option
     \<Rightarrow> string option \<Rightarrow> py_error + DataFrame" where
  "filter_pids_date date_columns date_of pid_df start_date end_date =
     (if has_columns pid_df date_columns then
        (case build_column date_of (df_rows pid_df) of
           Inl e \<Rightarrow> Inl e
         | Inr dates \<Rightarrow>
             (case parse_bound ''start_date'' start_date of
                Inl e \<Rightarrow> Inl e
              | Inr sd \<Rightarrow>
                  (case parse_bound ''end_date'' end_date of
                     Inl e \<Rightarrow> Inl e
                   | Inr ed \<Rightarrow>
                       Inr \<lparr>df_columns = filter (\<lambda>c. c \<noteq> ''date'') (df_columns pid_df),
                            df_rows = map (\<lambda>dr. drop_column ''date'' (snd dr))
                               (keep_until ed (keep_from sd (zip dates (df_rows pid_df))))\<rparr>)))
      else Inl KeyError)"

text \<open>\<open>MLYDownloader._filter_pids_date\<close> reads \<open>captured_at\<close>.\<close>

definition MLY_filter_pids_date ::
  "DataFrame \<Rightarrow> string option \<Rightarrow> string option \<Rightarrow> py_error + DataFrame" where
  "MLY_filter_pids_date = filter_pids_date [''captured_at''] mly_date"

text \<open>\<open>GSVDownloader._filter_pids_date\<close> reads \<open>year\<close> and \<open>month\<close>.\<close>

definition GSV_filter_pids_date ::
  "DataFrame \<Rightarrow> string option \<Rightarrow> string option \<Rightarrow> py_error + DataFrame" where
  "GSV_filter_pids_date = filter_pids_date [''year'', ''month''] gsv_date"

section \<open>Dates: proofs\<close>



definition number_of :: "string \<Rightarrow> nat" where
  "number_of s = foldl (\<lambda>a c. 10 * a + digit_val c) 0 s"







lemma digit_not_dash: "is_digit c \<Longrightarrow> c \<noteq> CHR ''-''"
  by (auto simp: is_digit_def)







section \<open>Date filters: statements and proofs\<close>



text \<open>A row's date lies in the closed interval from \<open>a\<close> to \<open>b\<close>; a row without a date
  lies in no interval.\<close>

definition in_interval :: "real \<Rightarrow> real \<Rightarrow> py_error + real option \<Rightarrow> bool" where
  "in_interval a b d = (case d of Inr (Some t) \<Rightarrow> a \<le> t \<and> t \<le> b | _ \<Rightarrow> False)"


lemma build_column_Cons:
  "build_column f (r # rs) = Inr ds \<longleftrightarrow>
     (\<exists>d ds'. f r = Inr d \<and> build_column f rs = Inr ds' \<and> ds = d # ds')"
  by (auto split: sum.splits)

lemma keep_interval:
  "build_column f df = Inr dates \<Longrightarrow>
   map snd (keep_until (Some b) (keep_from (Some a) (zip dates df)))
     = filter (\<lambda>r. in_interval a b (f r)) df"
proof (induction df arbitrary: dates)
  case Nil
  then show ?case by (simp add: keep_until_def keep_from_def)
next
  case (Cons r rs)
  from Cons.prems obtain d ds'
    where d: "f r = Inr d" "build_column f rs = Inr ds'" "dates = d # ds'"
    unfolding build_column_Cons by blast
  from Cons.IH [OF d(2)] d(1,3) show ?case
    by (cases d) (auto simp: keep_until_def keep_from_def in_interval_def)
qed

lemma parse_bound_Some:
  "strptime s = Some ymd \<Longrightarrow> parse_bound name (Some s) = Inr (Some (real_of_int (epoch_ms ymd)))"
  by (simp add: parse_bound_def)




text \<open>On a table whose date column builds, and for two bounds that parse, the filter
  keeps exactly the rows whose date lies in the closed interval between the two
  midnights, in their order, without the temporary column.\<close>

lemma filter_pids_date_interval:
  assumes "has_columns df date_columns" and "build_column date_of (df_rows df) = Inr dates"
    and "strptime s = Some a" and "strptime e = Some b"
  shows "filter_pids_date date_columns date_of df (Some s) (Some e)
         = Inr \<lparr>df_columns = filter (\<lambda>c. c \<noteq> ''date'') (df_columns df),
                df_rows = map (drop_column ''date'')
                  (filter (\<lambda>r. in_interval (real_of_int (epoch_ms a)) (real_of_int (epoch_ms b))
                                 (date_of r)) (df_rows df))\<rparr>"
proof -
  have eq: "map (\<lambda>dr. drop_column ''date'' (snd dr)) xs = map (drop_column ''date'') (map snd xs)"
    for xs :: "(real option \<times> row) list"
    by simp
  show ?thesis
    using assms
    by (simp add: filter_pids_date_def parse_bound_Some eq keep_interval [OF assms(2)]
        del: map_map)
qed







text \<open>The date column is built before any bound is looked at: a table without the
  columns raises KeyError and a cell that does not convert raises its error, whatever
  the bounds are.\<close>

lemma filter_table_errors:
  "\<not> has_columns df date_columns \<Longrightarrow>
   filter_pids_date date_columns date_of df sd ed = Inl KeyError"
  "has_columns df date_columns \<Longrightarrow> build_column date_of (df_rows df) = Inl e \<Longrightarrow>
   filter_pids_date date_columns date_of df sd ed = Inl e"
  by (simp_all add: filter_pids_date_def)






lemmas date_eval_defs =
  strptime_def is_digit_def digit_val_def digit_in_def valid_date_def days_in_month_def
  month_lengths_def is_leap_def Let_def

lemma strptime_examples:
  "strptime ''2020-01-01'' = Some (2020, 1, 1)"
  "strptime ''2020-12-31'' = Some (2020, 12, 31)"
  "strptime ''2020-1-5'' = Some (2020, 1, 5)"
  "strptime ''2020-01- 5'' = Some (2020, 1, 5)"
  "strptime ''not-a-date'' = None"
  "strptime ''2020-02-30'' = None"
  "strptime ''2020-01-011'' = None"
  "strptime ''0000-01-01'' = None"
  by (simp_all add: date_eval_defs)

lemma epoch_ms_examples:
  "epoch_ms (1970, 1, 1) = 0"
  "epoch_ms (2020, 1, 1) = 1577836800000"
  "epoch_ms (2020, 1, 5) = 1578182400000"
  "epoch_ms (2020, 6, 1) = 1590969600000"
  "epoch_ms (2020, 12, 31) = 1609372800000"
  "epoch_ms (2020, Suc 0, Suc 0) = 1577836800000"
  "epoch_ms (2020, 6, Suc 0) = 1590969600000"
  by (simp_all add: epoch_ms_def toordinal_def days_before_year_def days_before_month_def
      month_lengths_def is_leap_def)


lemmas date_filter_eval_defs =
  GSV_filter_pids_date_def MLY_filter_pids_date_def filter_pids_date_def has_columns_def
  gsv_date_def mly_date_def in_ns_range_def cell_of_def parse_bound_def incorrect_format_def
  strptime_examples epoch_ms_examples keep_from_def keep_until_def drop_column_def

text \<open>The end date is the midnight that starts it: a Mapillary panorama captured at
  noon of the end date is dropped, one captured at that midnight is kept.\<close>

lemma MLY_filter_end_date_is_midnight:
  "MLY_filter_pids_date
     \<lparr>df_columns = [''id'', ''captured_at''],
      df_rows = [[(''id'', IntC 1), (''captured_at'', IntC 1609372800000)],
                 [(''id'', IntC 2), (''captured_at'', IntC 1609416000000)]]\<rparr>
     (Some ''2020-01-01'') (Some ''2020-12-31'')
   = Inr \<lparr>df_columns = [''id'', ''captured_at''],
          df_rows = [[(''id'', IntC 1), (''captured_at'', IntC 1609372800000)]]\<rparr>"
  by (simp add: date_filter_eval_defs)

text \<open>
  Claim C2, at an input where the code departs from it.  A GSV pid table read from CSV
  with one dated panorama (June 2020) and one whose metadata request returned no date:
  the null turns both columns to floats, the date column cannot be built, and the
  filter raises instead of keeping the panorama of June 2020.  The same dated row
  alone, with integer columns, is kept.
\<close>

theorem GSV_filter_pids_date_null_date_raises:
  "GSV_filter_pids_date
     \<lparr>df_columns = [''panoid'', ''year'', ''month''],
      df_rows = [[(''panoid'', StrC ''a''), (''year'', FloatC 2020), (''month'', FloatC 6)],
                 [(''panoid'', StrC ''b''), (''year'', NaN), (''month'', NaN)]]\<rparr>
     (Some ''2020-01-01'') (Some ''2020-12-31'')
   = Inl (ValueError ''time data does not match format %Y-%m'')
   \<and> GSV_filter_pids_date
     \<lparr>df_columns = [''panoid'', ''year'', ''month''],
      df_rows = [[(''panoid'', StrC ''a''), (''year'', IntC 2020), (''month'', IntC 6)]]\<rparr>
     (Some ''2020-01-01'') (Some ''2020-12-31'')
   = Inr \<lparr>df_columns = [''panoid'', ''year'', ''month''],
          df_rows = [[(''panoid'', StrC ''a''), (''year'', IntC 2020), (''month'', IntC 6)]]\<rparr>"
  by (simp add: date_filter_eval_defs)






section \<open>Image fetch: the work set and the batches\<close>

text \<open>
  The output image tree is the list of the files under the panorama directory, each a
  path relative to it with \<open>/\<close> as separator.
\<close>

text \<open>\<open>Path(p).name\<close>: the last component of a path.\<close>

definition path_name :: "path \<Rightarrow> string" where
  "path_name p = rev (takeWhile (\<lambda>c. c \<noteq> CHR ''/'') (rev p))"

text \<open>\<open>Path(p).stem\<close>: the name without its last suffix; a name whose only dot is its
  first or last character has no suffix.\<close>

definition stem :: "path \<Rightarrow> string" where
  "stem p =
     (let name = path_name p;
          after = takeWhile (\<lambda>c. c \<noteq> CHR ''.'') (rev name);
          i = length name - length after - 1
      in if length after < length name \<and> 0 < i \<and> 0 < length after then take i name else name)"

text \<open>\<open>glob('**/*.png', recursive=True)\<close>: the files named \<open>*.png\<close>; the pattern does
  not match names that start with a dot.\<close>

definition glob_png :: "path list \<Rightarrow> path list" where
  "glob_png files =
     filter (\<lambda>p. suffix ''.png'' (path_name p) \<and> \<not> prefix ''.'' (path_name p)) files"

text \<open>\<open>Series.astype('int64')\<close>: an integer stays, a float is truncated towards zero,
  a null or text raises.\<close>

definition astype_int64 :: "cell \<Rightarrow> py_error + cell" where
  "astype_int64 c =
     (case c of
        IntC n \<Rightarrow> Inr (IntC n)
      | FloatC x \<Rightarrow> Inr (IntC (if x < 0 then \<lceil>x\<rceil> else \<lfloor>x\<rfloor>))
      | NaN \<Rightarrow> Inl (ValueError ''Cannot convert non-finite values (NA or inf) to integer'')
      | StrC _ \<Rightarrow> Inl (ValueError ''invalid literal for int()''))"

definition set_cell :: "string \<Rightarrow> cell \<Rightarrow> row \<Rightarrow> row" where
  "set_cell c v r =
     (if c \<in> fst ` set r then map (\<lambda>kv. if fst kv = c then (c, v) else kv) r else r @ [(c, v)])"

text \<open>\<open>df[c] = df[c].astype('int64')\<close>: a table without the column raises KeyError.\<close>

definition astype_column :: "string \<Rightarrow> DataFrame \<Rightarrow> py_error + DataFrame" where
  "astype_column c df =
     (if c \<in> set (df_columns df) then
        (case build_column (\<lambda>r. case astype_int64 (cell_of r c) of
                                   Inl e \<Rightarrow> Inl e
                                 | Inr v \<Rightarrow> Inr (set_cell c v r)) (df_rows df) of
           Inl e \<Rightarrow> Inl e
         | Inr rows \<Rightarrow> Inr (df\<lparr>df_rows := rows\<rparr>))
      else Inl KeyError)"

text \<open>\<open>df.dropna(subset=[c])\<close>: a table without the column raises KeyError.\<close>

definition dropna :: "string \<Rightarrow> DataFrame \<Rightarrow> py_error + DataFrame" where
  "dropna c df =
     (if c \<in> set (df_columns df)
      then Inr (df\<lparr>df_rows := filter (\<lambda>r. cell_of r c \<noteq> NaN) (df_rows df)\<rparr>)
      else Inl KeyError)"

text \<open>Renaming the columns of a row.\<close>

definition rename_columns :: "(string \<Rightarrow> string) \<Rightarrow> row \<Rightarrow> row" where
  "rename_columns f r = map (\<lambda>kv. (f (fst kv), snd kv)) r"

text \<open>
  \<open>left.merge(right, on=key, how='left')\<close>: every left row, once for each right row
  with the same key, or once alone when there is none.  A column other than the key
  that both tables have is kept twice, with the suffixes \<open>_x\<close> and \<open>_y\<close>.  A table
  without the key column raises KeyError.
\<close>

definition merge_left :: "string \<Rightarrow> DataFrame \<Rightarrow> DataFrame \<Rightarrow> py_error + DataFrame" where
  "merge_left key left right =
     (if key \<in> set (df_columns left) \<and> key \<in> set (df_columns right) then
        (let both = (\<lambda>c. c \<noteq> key \<and> c \<in> set (df_columns left) \<and> c \<in> set (df_columns right));
             left_name = (\<lambda>c. if both c then c @ ''_x'' else c);
             right_name = (\<lambda>c. if both c then c @ ''_y'' else c)
         in Inr \<lparr>df_columns = map left_name (df_columns left)
                     @ map right_name (filter (\<lambda>c. c \<noteq> key) (df_columns right)),
                 df_rows = concat (map
                   (\<lambda>l. case filter (\<lambda>r. cell_of r key = cell_of l key) (df_rows right) of
                          [] \<Rightarrow> [rename_columns left_name l]
                        | ms \<Rightarrow> map (\<lambda>r. rename_columns left_name l
                                         @ rename_columns right_name (drop_column key r)) ms)
                   (df_rows left))\<rparr>)
      else Inl KeyError)"

text \<open>\<open>int(Path(batch).name.split('_')[-1])\<close> for a decimal numeral; other text raises.\<close>

definition batch_number :: "string \<Rightarrow> py_error + nat" where
  "batch_number name =
     (let last_part = rev (takeWhile (\<lambda>c. c \<noteq> CHR ''_'') (rev name))
      in if last_part \<noteq> [] \<and> list_all is_digit last_part then Inr (number_of last_part)
         else Inl (ValueError ''invalid literal for int() with base 10''))"

text \<open>The numbers of the entries \<open>batch_*\<close> of the panorama directory.\<close>

definition existing_batch_numbers :: "string list \<Rightarrow> py_error + nat list" where
  "existing_batch_numbers entries =
     build_column batch_number (filter (prefix ''batch_'') entries)"

text \<open>\<open>max(numbers, default=0)\<close>.\<close>

definition max_default :: "nat list \<Rightarrow> nat" where
  "max_default ns = fold max ns 0"

text \<open>
  The batch loop: for \<open>i\<close> from \<open>start\<close> to \<open>start + num_batches - 1\<close> the directory
  \<open>batch_{i+1}\<close> gets the rows \<open>iloc[i*batch_size : (i+1)*batch_size]\<close>.
\<close>

definition batch_loop :: "nat \<Rightarrow> nat \<Rightarrow> nat \<Rightarrow> 'a list \<Rightarrow> (nat \<times> 'a list) list" where
  "batch_loop start num_batches batch_size df =
     map (\<lambda>i. (i + 1, take batch_size (drop (i * batch_size) df)))
       [start ..< start + num_batches]"

text \<open>
  \<open>MLYDownloader._download_images_mly\<close>: from the files of the image tree, the entries
  of the panorama directory, the pid table and the url table, the fetches of the run:
  each batch number with the rows a worker is started for.  What a fetch returns has no
  effect on which fetches are made.
\<close>

definition download_images_mly ::
  "path list \<Rightarrow> string list \<Rightarrow> DataFrame \<Rightarrow> DataFrame \<Rightarrow> nat \<Rightarrow> string option
     \<Rightarrow> string option \<Rightarrow> py_error + (nat \<times> row list) list" where
  "download_images_mly files entries pid_csv urls_csv batch_size start_date end_date =
     (let downloaded_ids = map (\<lambda>p. StrC (stem p)) (glob_png files) in
      case dropna ''id'' pid_csv of
        Inl e \<Rightarrow> Inl e
      | Inr pid_na \<Rightarrow>
      (case astype_column ''id'' pid_na of
        Inl e \<Rightarrow> Inl e
      | Inr pid_df \<Rightarrow>
      (case astype_column ''id'' urls_csv of
        Inl e \<Rightarrow> Inl e
      | Inr urls_int \<Rightarrow>
      (case merge_left ''id'' urls_int pid_df of
        Inl e \<Rightarrow> Inl e
      | Inr merged \<Rightarrow>
      (case MLY_filter_pids_date merged start_date end_date of
        Inl e \<Rightarrow> Inl e
      | Inr urls_dated \<Rightarrow>
      (let urls_df = filter (\<lambda>r. cell_of r ''id'' \<notin> set downloaded_ids) (df_rows urls_dated) in
       if batch_size = 0 then Inl ZeroDivisionError
       else
         (case existing_batch_numbers entries of
            Inl e \<Rightarrow> Inl e
          | Inr numbers \<Rightarrow>
              Inr (batch_loop (max_default numbers)
                     ((length urls_df + batch_size - 1) div batch_size) batch_size urls_df))))))))"

text \<open>
  \<open>BaseDownloader._check_already\<close>, the GSV path: the names of all files of the tree up
  to their first dot are taken off the set of wanted ids.  The order of the resulting
  list is that of a Python set; here it is the order of the wanted ids.
\<close>

definition check_already :: "path list \<Rightarrow> cell list \<Rightarrow> cell list" where
  "check_already files all_panoids =
     (let name_r = map (\<lambda>p. StrC (takeWhile (\<lambda>c. c \<noteq> CHR ''.'') (path_name p))) files
      in remdups (filter (\<lambda>p. p \<notin> set name_r) all_panoids))"

section \<open>Image fetch: proofs\<close>

lemma batch_loop_concat:
  "concat (map snd (batch_loop start n batch_size df))
   = take (n * batch_size) (drop (start * batch_size) df)"
proof (induction n)
  case 0
  then show ?case by (simp add: batch_loop_def)
next
  case (Suc n)
  have "concat (map snd (batch_loop start (Suc n) batch_size df))
        = concat (map snd (batch_loop start n batch_size df))
          @ take batch_size (drop ((start + n) * batch_size) df)"
    by (simp add: batch_loop_def)
  also have "\<dots> = take (n * batch_size) (drop (start * batch_size) df)
          @ take batch_size (drop (n * batch_size) (drop (start * batch_size) df))"
    by (simp add: Suc.IH add_mult_distrib add.commute)
  also have "\<dots> = take (n * batch_size + batch_size) (drop (start * batch_size) df)"
    by (simp add: take_add)
  finally show ?case
    by (simp add: add.commute)
qed

text \<open>A run that finds no batch directory puts every row of the work set in exactly one
  batch, in order.\<close>

lemma batch_loop_fresh:
  assumes "0 < batch_size"
  shows "concat (map snd (batch_loop 0 ((length df + batch_size - 1) div batch_size) batch_size df))
         = df"
proof -
  have "length df \<le> (length df + batch_size - 1) div batch_size * batch_size"
  proof -
    have "length df + batch_size - 1
          = (length df + batch_size - 1) div batch_size * batch_size
            + (length df + batch_size - 1) mod batch_size"
      by simp
    moreover have "(length df + batch_size - 1) mod batch_size \<le> batch_size - 1"
      using assms by (simp add: less_Suc_eq_le [symmetric])
    ultimately show ?thesis
      using assms by linarith
  qed
  then show ?thesis
    by (simp add: batch_loop_concat)
qed

text \<open>A run that finds batch directories up to \<open>start\<close> leaves the first
  \<open>start * batch_size\<close> rows of its work set out of every batch.\<close>

lemma batch_loop_resumed_skips:
  "concat (map snd (batch_loop start ((length df + batch_size - 1) div batch_size) batch_size df))
   = take ((length df + batch_size - 1) div batch_size * batch_size)
       (drop (start * batch_size) df)"
  by (rule batch_loop_concat)

text \<open>The test against the downloaded ids compares an integer id with the text of a
  file stem, and these are never equal: it removes no row with an integer id.\<close>

lemma isin_stems_never_matches:
  assumes "list_all (\<lambda>r. case cell_of r ''id'' of IntC _ \<Rightarrow> True | _ \<Rightarrow> False) df"
  shows "filter (\<lambda>r. cell_of r ''id'' \<notin> set (map (\<lambda>p. StrC (stem p)) pngs)) df = df"
proof -
  have "cell_of r ''id'' \<notin> set (map (\<lambda>p. StrC (stem p)) pngs)" if "r \<in> set df" for r
    using assms that by (auto simp: list_all_iff split: cell.splits)
  then show ?thesis
    by (simp add: filter_id_conv)
qed

text \<open>The GSV path compares text with text: a wanted id that is the name, up to the
  first dot, of a file of the tree is not in the remaining work.\<close>

lemma check_already_skips_present:
  assumes "f \<in> set files" and "takeWhile (\<lambda>c. c \<noteq> CHR ''.'') (path_name f) = p"
  shows "StrC p \<notin> set (check_already files all_panoids)"
  using assms by (auto simp: check_already_def Let_def)

lemmas image_fetch_eval_defs =
  download_images_mly_def astype_column_def astype_int64_def dropna_def merge_left_def
  rename_columns_def set_cell_def cell_of_def drop_column_def glob_png_def path_name_def
  stem_def suffix_to_prefix MLY_filter_pids_date_def filter_pids_date_def has_columns_def
  mly_date_def in_ns_range_def parse_bound_def keep_from_def keep_until_def
  existing_batch_numbers_def batch_number_def number_of_def is_digit_def digit_val_def
  max_default_def batch_loop_def Let_def

text \<open>
  Claim C5, at an input where the code departs from it.  A first run with the default
  batch size left \<open>batch_1/1.png\<close> and \<open>batch_1/2.png\<close>; the table has the ids 1 and
  2.  A second run with batch size 1 finds the stems \<open>1\<close> and \<open>2\<close>, yet keeps both
  rows in the work set and starts a fetch for id 2 into \<open>batch_2\<close>.
\<close>

theorem download_images_mly_fetches_present_pano:
  "map stem (glob_png [''batch_1/1.png'', ''batch_1/2.png'']) = [''1'', ''2'']
   \<and> download_images_mly [''batch_1/1.png'', ''batch_1/2.png''] [''batch_1'']
       \<lparr>df_columns = [''id'', ''captured_at''],
        df_rows = [[(''id'', IntC 1), (''captured_at'', IntC 1578182400000)],
                   [(''id'', IntC 2), (''captured_at'', IntC 1578182400000)]]\<rparr>
       \<lparr>df_columns = [''id'', ''url''],
        df_rows = [[(''id'', IntC 1), (''url'', StrC ''https://img/1'')],
                   [(''id'', IntC 2), (''url'', StrC ''https://img/2'')]]\<rparr>
       1 None None
     = Inr [(2, [[(''id'', IntC 2), (''url'', StrC ''https://img/2''),
                  (''captured_at'', IntC 1578182400000)]]),
            (3, [])]"
  by (simp add: image_fetch_eval_defs)

text \<open>
  Claim C7, at an input where the code departs from it.  The table has the ids 123 and
  124, \<open>batch_1/123.png\<close> exists and the fetch of 124 failed in the first run.  The
  resumed run, with the same batch size 1000, makes the one batch \<open>batch_2\<close> and puts
  no row in it: the work item 124 is assigned to no batch.
\<close>

theorem download_images_mly_resumed_batch_is_empty:
  "download_images_mly [''batch_1/123.png''] [''batch_1'']
       \<lparr>df_columns = [''id'', ''captured_at''],
        df_rows = [[(''id'', IntC 123), (''captured_at'', IntC 1578182400000)],
                   [(''id'', IntC 124), (''captured_at'', IntC 1578182400000)]]\<rparr>
       \<lparr>df_columns = [''id'', ''url''],
        df_rows = [[(''id'', IntC 123), (''url'', StrC ''https://img/123'')],
                   [(''id'', IntC 124), (''url'', StrC ''https://img/124'')]]\<rparr>
       1000 None None
     = Inr [(2, [])]"
  by (simp add: image_fetch_eval_defs)

section \<open>Panorama ID discovery: workers and the records they emit\<close>

text \<open>
  A query point is a row of the point table with the columns \<open>latitude\<close>,
  \<open>longitude\<close>, \<open>lat_lon_id\<close> and the user id columns.  The provider's lookup is a
  parameter: given latitude and longitude it returns the records found or raises.
\<close>

text \<open>\<open>result[k] = v\<close> for each pair of a dictionary, in order: \<open>dict.update\<close>.\<close>

definition dict_update :: "row \<Rightarrow> row \<Rightarrow> row" where
  "dict_update d result = fold (\<lambda>kv r. set_cell (fst kv) (snd kv) r) d result"

text \<open>The \<open>id_dict\<close> of a worker: the point's value for each user id column.\<close>

definition id_dict_of :: "string list \<Rightarrow> row \<Rightarrow> row" where
  "id_dict_of id_columns point = map (\<lambda>column. (column, cell_of point column)) id_columns"

text \<open>
  The worker of \<open>GSVDownloader._get_pids_from_df\<close>.  It returns the tuple
  \<open>(lat_lon_id, (input_longitude, input_latitude), results, id_dict)\<close>; the lookup
  \<open>panoids\<close> takes latitude first.
\<close>

definition gsv_worker ::
  "(cell \<Rightarrow> cell \<Rightarrow> py_error + row list) \<Rightarrow> string list \<Rightarrow> row
     \<Rightarrow> py_error + cell \<times> (cell \<times> cell) \<times> row list \<times> row" where
  "gsv_worker panoids id_columns point =
     (let input_longitude = cell_of point ''longitude'';
          input_latitude = cell_of point ''latitude'';
          lat_lon_id = cell_of point ''lat_lon_id'';
          id_dict = id_dict_of id_columns point
      in case panoids input_latitude input_longitude of
           Inl e \<Rightarrow> Inl e
         | Inr results \<Rightarrow> Inr (lat_lon_id, (input_longitude, input_latitude), results, id_dict))"

text \<open>The loop over a finished GSV future: the tuple is unpacked as
  \<open>lat_lon_id, (input_longitude, input_latitude), row_results, id_dict\<close>.\<close>

definition gsv_emit :: "cell \<times> (cell \<times> cell) \<times> row list \<times> row \<Rightarrow> row list" where
  "gsv_emit res =
     (case res of (lat_lon_id, (input_longitude, input_latitude), row_results, id_dict) \<Rightarrow>
        map (\<lambda>result.
               dict_update id_dict
                 (set_cell ''lat_lon_id'' lat_lon_id
                   (set_cell ''input_longitude'' input_longitude
                     (set_cell ''input_latitude'' input_latitude result))))
          row_results)"

text \<open>
  The worker of \<open>MLYDownloader._get_pids_from_df\<close>.  It returns the tuple
  \<open>(lat_lon_id, (input_latitude, input_longitude), features, id_dict)\<close>: latitude
  first.
\<close>

definition mly_worker ::
  "(cell \<Rightarrow> cell \<Rightarrow> py_error + cell feature_dict list) \<Rightarrow> string list \<Rightarrow> row
     \<Rightarrow> py_error + cell \<times> (cell \<times> cell) \<times> cell feature_dict list \<times> row" where
  "mly_worker get_image_close_to id_columns point =
     (let input_latitude = cell_of point ''latitude'';
          input_longitude = cell_of point ''longitude'';
          lat_lon_id = cell_of point ''lat_lon_id'';
          id_dict = id_dict_of id_columns point
      in case get_image_close_to input_latitude input_longitude of
           Inl e \<Rightarrow> Inl e
         | Inr found \<Rightarrow> Inr (lat_lon_id, (input_latitude, input_longitude), found, id_dict))"

text \<open>The loop over a finished Mapillary future.  The source unpacks the tuple as
  \<open>lat_lon_id, (input_longitude, input_latitude), row_results, id_dict\<close>: longitude
  first.\<close>

definition mly_emit ::
  "cell \<times> (cell \<times> cell) \<times> cell feature_dict list \<times> row \<Rightarrow> cell feature_dict list" where
  "mly_emit res =
     (case res of (lat_lon_id, (input_longitude, input_latitude), row_results, id_dict) \<Rightarrow>
        map (\<lambda>result.
               result\<lparr>fd_properties :=
                 dict_update id_dict
                   (set_cell ''lat_lon_id'' lat_lon_id
                     (set_cell ''input_longitude'' input_longitude
                       (set_cell ''input_latitude'' input_latitude (fd_properties result))))\<rparr>)
          row_results)"

text \<open>The records one query point contributes to a batch; a lookup that raises
  contributes none (the point goes to the failed rows).\<close>

definition gsv_records ::
  "(cell \<Rightarrow> cell \<Rightarrow> py_error + row list) \<Rightarrow> string list \<Rightarrow> row \<Rightarrow> row list" where
  "gsv_records panoids id_columns point =
     (case gsv_worker panoids id_columns point of Inl _ \<Rightarrow> [] | Inr res \<Rightarrow> gsv_emit res)"

definition mly_records ::
  "(cell \<Rightarrow> cell \<Rightarrow> py_error + cell feature_dict list) \<Rightarrow> string list \<Rightarrow> row
     \<Rightarrow> cell feature_dict list" where
  "mly_records get_image_close_to id_columns point =
     (case mly_worker get_image_close_to id_columns point of
        Inl _ \<Rightarrow> []
      | Inr res \<Rightarrow> mly_emit res)"

text \<open>\<open>GeoDataFrame.from_features\<close> and the two lines after it: one table row per
  feature, its properties with \<open>lon\<close> and \<open>lat\<close> read off the point geometry.\<close>

definition feature_row :: "cell feature_dict \<Rightarrow> row" where
  "feature_row f =
     set_cell ''lat'' (FloatC (gd_coordinates (fd_geometry f) ! 1))
       (set_cell ''lon'' (FloatC (gd_coordinates (fd_geometry f) ! 0)) (fd_properties f))"

section \<open>Discovery workers: proofs\<close>

lemma map_of_replace_other:
  "c' \<noteq> c \<Longrightarrow> map_of (map (\<lambda>kv. if fst kv = c then (c, v) else kv) r) c' = map_of r c'"
  by (induction r) auto

lemma map_of_replace_same:
  "c \<in> fst ` set r \<Longrightarrow> map_of (map (\<lambda>kv. if fst kv = c then (c, v) else kv) r) c = Some v"
  by (induction r) auto

lemma cell_of_set_cell: "cell_of (set_cell c v r) c' = (if c' = c then v else cell_of r c')"
proof (cases "c \<in> fst ` set r")
  case True
  then show ?thesis
    by (simp add: set_cell_def cell_of_def map_of_replace_other map_of_replace_same)
next
  case False
  then have "map_of r c = None"
    by (simp add: map_of_eq_None_iff)
  then show ?thesis
    using False by (auto simp: set_cell_def cell_of_def map_add_def split: option.splits)
qed

lemma cell_of_dict_update_other:
  "c \<notin> fst ` set d \<Longrightarrow> cell_of (dict_update d r) c = cell_of r c"
  unfolding dict_update_def
  by (induction d arbitrary: r) (auto simp: cell_of_set_cell)

lemma cell_of_dict_update_in:
  "distinct (map fst d) \<Longrightarrow> (c, v) \<in> set d \<Longrightarrow> cell_of (dict_update d r) c = v"
  unfolding dict_update_def
proof (induction d arbitrary: r)
  case Nil
  then show ?case by simp
next
  case (Cons kv d)
  show ?case
  proof (cases "kv = (c, v)")
    case True
    with Cons.prems have "c \<notin> fst ` set d"
      by auto
    then have "cell_of (dict_update d (set_cell c v r)) c = cell_of (set_cell c v r) c"
      by (rule cell_of_dict_update_other)
    with True show ?thesis
      by (simp add: dict_update_def cell_of_set_cell)
  next
    case False
    with Cons show ?thesis
      by auto
  qed
qed

text \<open>The GSV path attaches the point's own values to every record, as long as no
  user id column is itself named \<open>input_latitude\<close> or \<open>input_longitude\<close>.\<close>

lemma gsv_records_attach:
  assumes "r \<in> set (gsv_records panoids id_columns point)"
    and "''input_latitude'' \<notin> set id_columns" and "''input_longitude'' \<notin> set id_columns"
    and "distinct id_columns"
  shows "cell_of r ''input_latitude'' = cell_of point ''latitude''"
    and "cell_of r ''input_longitude'' = cell_of point ''longitude''"
    and "cell_of r ''lat_lon_id'' = cell_of point ''lat_lon_id''"
    and "\<forall>c \<in> set id_columns. cell_of r c = cell_of point c"
proof -
  let ?d = "id_dict_of id_columns point"
  from assms(1) obtain results result where
    r: "r = dict_update ?d
              (set_cell ''lat_lon_id'' (cell_of point ''lat_lon_id'')
                (set_cell ''input_longitude'' (cell_of point ''longitude'')
                  (set_cell ''input_latitude'' (cell_of point ''latitude'') result)))"
    by (auto simp: gsv_records_def gsv_worker_def gsv_emit_def Let_def split: sum.splits)
  have keys: "fst ` set ?d = set id_columns"
    by (force simp: id_dict_of_def)
  have dist: "distinct (map fst ?d)"
    using assms(4) by (simp add: id_dict_of_def o_def)
  show "cell_of r ''input_latitude'' = cell_of point ''latitude''"
    using assms(2) keys by (simp add: r cell_of_dict_update_other cell_of_set_cell)
  show "cell_of r ''input_longitude'' = cell_of point ''longitude''"
    using assms(3) keys by (simp add: r cell_of_dict_update_other cell_of_set_cell)
  show "\<forall>c \<in> set id_columns. cell_of r c = cell_of point c"
  proof
    fix c assume "c \<in> set id_columns"
    then have "(c, cell_of point c) \<in> set ?d"
      by (simp add: id_dict_of_def)
    with dist show "cell_of r c = cell_of point c"
      unfolding r by (rule cell_of_dict_update_in)
  qed
  show "cell_of r ''lat_lon_id'' = cell_of point ''lat_lon_id''"
  proof (cases "''lat_lon_id'' \<in> set id_columns")
    case True
    then have "(''lat_lon_id'', cell_of point ''lat_lon_id'') \<in> set ?d"
      by (simp add: id_dict_of_def)
    with dist show ?thesis
      unfolding r by (rule cell_of_dict_update_in)
  next
    case False
    with keys show ?thesis
      by (simp add: r cell_of_dict_update_other cell_of_set_cell)
  qed
qed


text \<open>
  Claim C4, at an input where the code departs from it.  The query point has latitude
  1, longitude 103, id 1 and the user id column \<open>site\<close> with value \<open>A\<close>; the
  provider returns one record for it.  The Mapillary path emits the record with
  \<open>input_latitude\<close> 103 and \<open>input_longitude\<close> 1, the two swapped; \<open>lat_lon_id\<close>
  and \<open>site\<close> are right.  The GSV path emits latitude 1 and longitude 103.
\<close>

theorem mly_records_swap_input_coordinates:
  "map feature_row
     (mly_records
        (\<lambda>lat lon. if lat = FloatC 1 \<and> lon = FloatC 103
           then Inr [\<lparr>fd_geometry = \<lparr>gd_type = ''Point'', gd_coordinates = [103, 1]\<rparr>,
                      fd_properties = [(''id'', IntC 5)]\<rparr>]
           else Inr [])
        [''site'']
        [(''latitude'', FloatC 1), (''longitude'', FloatC 103), (''lat_lon_id'', IntC 1),
         (''site'', StrC ''A'')])
   = [[(''id'', IntC 5), (''input_latitude'', FloatC 103), (''input_longitude'', FloatC 1),
       (''lat_lon_id'', IntC 1), (''site'', StrC ''A''), (''lon'', FloatC 103),
       (''lat'', FloatC 1)]]
   \<and> gsv_records
        (\<lambda>lat lon. if lat = FloatC 1 \<and> lon = FloatC 103
           then Inr [[(''panoid'', StrC ''p'')]] else Inr [])
        [''site'']
        [(''latitude'', FloatC 1), (''longitude'', FloatC 103), (''lat_lon_id'', IntC 1),
         (''site'', StrC ''A'')]
   = [[(''panoid'', StrC ''p''), (''input_latitude'', FloatC 1), (''input_longitude'', FloatC 103),
       (''lat_lon_id'', IntC 1), (''site'', StrC ''A'')]]"
  by (simp add: mly_records_def mly_worker_def mly_emit_def gsv_records_def gsv_worker_def
      gsv_emit_def id_dict_of_def dict_update_def set_cell_def cell_of_def feature_row_def
      Let_def)

section \<open>Panorama ID discovery: finalisation\<close>

text \<open>
  A table built from dictionaries, or read back from the CSV written from one, has a
  column exactly when some row has a cell for it.
\<close>

definition has_column :: "row list \<Rightarrow> string \<Rightarrow> bool" where
  "has_column df c = list_ex (\<lambda>r. c \<in> fst ` set r) df"

text \<open>\<open>pd.concat(frames, ignore_index=True)\<close>: the rows one frame after the other; no
  frame at all raises.\<close>

definition concat_frames :: "row list list \<Rightarrow> py_error + row list" where
  "concat_frames frames =
     (if frames = [] then Inl (ValueError ''No objects to concatenate'') else Inr (concat frames))"

text \<open>\<open>df.drop(columns=c)\<close>: a column the table does not have raises.\<close>

definition drop_columns :: "string \<Rightarrow> row list \<Rightarrow> py_error + row list" where
  "drop_columns c df = (if has_column df c then Inr (map (drop_column c) df) else Inl KeyError)"

text \<open>The key of a row under the key columns; nulls are equal to each other, as pandas
  has them when it looks for duplicates.\<close>

definition key_of :: "string list \<Rightarrow> row \<Rightarrow> cell list" where
  "key_of key_cols r = map (cell_of r) key_cols"

text \<open>\<open>df.drop_duplicates(subset=key_cols)\<close> with the default \<open>keep='first'\<close>: a pass over
  the rows that remembers the keys seen.\<close>

fun drop_seen :: "string list \<Rightarrow> cell list list \<Rightarrow> row list \<Rightarrow> row list" where
  "drop_seen key_cols seen [] = []"
| "drop_seen key_cols seen (r # rs) =
     (if key_of key_cols r \<in> set seen then drop_seen key_cols seen rs
      else r # drop_seen key_cols (key_of key_cols r # seen) rs)"

definition drop_duplicates :: "string list \<Rightarrow> row list \<Rightarrow> py_error + row list" where
  "drop_duplicates key_cols df =
     (if list_all (has_column df) key_cols then Inr (drop_seen key_cols [] df) else Inl KeyError)"

text \<open>
  The end of \<open>GSVDownloader._get_pids_from_df\<close>: the shards of the cache directory in
  the order \<open>glob\<close> lists them, the rows of the retry checkpoint when the retry of the
  failed rows found any, then the two drops.  The result is what is written to
  \<open>pids_raw.csv\<close>.
\<close>

definition GSV_finalize :: "string list \<Rightarrow> row list list \<Rightarrow> row list option \<Rightarrow> py_error + row list" where
  "GSV_finalize id_columns shards retry =
     (case concat_frames shards of
        Inl e \<Rightarrow> Inl e
      | Inr results_df \<Rightarrow>
          (case drop_columns ''lat_lon_id''
                  (case retry of None \<Rightarrow> results_df | Some retry_df \<Rightarrow> results_df @ retry_df) of
             Inl e \<Rightarrow> Inl e
           | Inr dropped \<Rightarrow> drop_duplicates (''panoid'' # id_columns) dropped))"

text \<open>What the retry of the failed rows left behind.\<close>

datatype retry_outcome = NoFailedRows | RetryFoundNothing | RetryRows "row list"

text \<open>
  The end of \<open>MLYDownloader._get_pids_from_df\<close>.  \<open>results_df\<close> is bound only when
  there is a shard; with no shard and no failed row the method returns without writing
  (None).  The retry checkpoint is written from the raw features, so its rows have the
  columns \<open>type\<close>, \<open>geometry\<close> and \<open>properties\<close>.
\<close>

definition MLY_finalize ::
  "string list \<Rightarrow> row list list \<Rightarrow> retry_outcome \<Rightarrow> py_error + row list option" where
  "MLY_finalize id_columns shards retry =
     (let results_df = (if shards \<noteq> [] then Some (concat shards) else None) in
      case (case retry of
              RetryRows retry_df \<Rightarrow>
                (case results_df of
                   None \<Rightarrow> Inl UnboundLocalError
                 | Some df \<Rightarrow> Inr (Some (df @ retry_df)))
            | _ \<Rightarrow> Inr results_df) of
        Inl e \<Rightarrow> Inl e
      | Inr results_df' \<Rightarrow>
          if shards = [] \<and> retry = NoFailedRows then Inr None
          else
            (case results_df' of
               None \<Rightarrow> Inl UnboundLocalError
             | Some df \<Rightarrow>
                 (case drop_columns ''lat_lon_id'' df of
                    Inl e \<Rightarrow> Inl e
                  | Inr dropped \<Rightarrow>
                      (case drop_duplicates (''id'' # id_columns) dropped of
                         Inl e \<Rightarrow> Inl e
                       | Inr deduped \<Rightarrow> Inr (Some deduped)))))"

section \<open>Finalisation: proofs\<close>

lemma drop_seen_keys:
  "set (map (key_of key_cols) (drop_seen key_cols seen df))
   = set (map (key_of key_cols) df) - set seen"
  by (induction df arbitrary: seen) auto

lemma drop_seen_distinct: "distinct (map (key_of key_cols) (drop_seen key_cols seen df))"
proof (induction df arbitrary: seen)
  case Nil
  then show ?case by simp
next
  case (Cons r rs)
  have "key_of key_cols r \<notin> set (map (key_of key_cols) (drop_seen key_cols (key_of key_cols r # seen) rs))"
    unfolding drop_seen_keys by simp
  with Cons show ?case
    by simp
qed

lemma drop_seen_first:
  "r \<in> set (drop_seen key_cols seen df)
   \<Longrightarrow> find (\<lambda>x. key_of key_cols x = key_of key_cols r) df = Some r"
proof (induction df arbitrary: seen)
  case Nil
  then show ?case by simp
next
  case (Cons x xs)
  show ?case
  proof (cases "key_of key_cols x \<in> set seen")
    case True
    with Cons.prems have in_rest: "r \<in> set (drop_seen key_cols seen xs)"
      by simp
    then have "key_of key_cols r \<in> set (map (key_of key_cols) (drop_seen key_cols seen xs))"
      by simp
    then have "key_of key_cols r \<notin> set seen"
      unfolding drop_seen_keys by simp
    with True have "key_of key_cols x \<noteq> key_of key_cols r"
      by auto
    with Cons.IH [OF in_rest] show ?thesis
      by simp
  next
    case False
    show ?thesis
    proof (cases "r = x")
      case True
      then show ?thesis by simp
    next
      case neq: False
      with False Cons.prems
      have in_rest: "r \<in> set (drop_seen key_cols (key_of key_cols x # seen) xs)"
        by simp
      then have "key_of key_cols r \<in> set (map (key_of key_cols)
                   (drop_seen key_cols (key_of key_cols x # seen) xs))"
        by simp
      then have "key_of key_cols x \<noteq> key_of key_cols r"
        unfolding drop_seen_keys by auto
      with Cons.IH [OF in_rest] show ?thesis
        by simp
    qed
  qed
qed

text \<open>What \<open>drop_duplicates\<close> returns when it returns: no two rows with the same key,
  every key of the input once, and for each key the first row of the input that has
  it.\<close>

lemma drop_duplicates_first:
  assumes "drop_duplicates key_cols df = Inr out"
  shows "distinct (map (key_of key_cols) out)"
    and "set (map (key_of key_cols) out) = set (map (key_of key_cols) df)"
    and "\<forall>r \<in> set out. find (\<lambda>x. key_of key_cols x = key_of key_cols r) df = Some r"
proof -
  from assms have out: "out = drop_seen key_cols [] df"
    by (simp add: drop_duplicates_def split: if_splits)
  show "distinct (map (key_of key_cols) out)"
    unfolding out by (rule drop_seen_distinct)
  show "set (map (key_of key_cols) out) = set (map (key_of key_cols) df)"
    unfolding out drop_seen_keys by simp
  show "\<forall>r \<in> set out. find (\<lambda>x. key_of key_cols x = key_of key_cols r) df = Some r"
    unfolding out by (blast intro: drop_seen_first)
qed


text \<open>The rows the final drops work on: all shards in order, then the retry rows,
  without the column \<open>lat_lon_id\<close>.\<close>

definition concatenated_rows :: "row list list \<Rightarrow> row list \<Rightarrow> row list" where
  "concatenated_rows shards retry_rows = map (drop_column ''lat_lon_id'') (concat shards @ retry_rows)"

lemma GSV_finalize_Inr:
  assumes "GSV_finalize id_columns shards retry = Inr pids_raw"
  shows "drop_duplicates (''panoid'' # id_columns)
           (concatenated_rows shards (case retry of None \<Rightarrow> [] | Some rs \<Rightarrow> rs)) = Inr pids_raw"
  using assms
  by (cases retry)
    (auto simp: GSV_finalize_def concat_frames_def drop_columns_def concatenated_rows_def
      split: if_splits sum.splits)

lemma MLY_finalize_Inr:
  assumes "MLY_finalize id_columns shards retry = Inr (Some pids_raw)"
  shows "drop_duplicates (''id'' # id_columns)
           (concatenated_rows shards (case retry of RetryRows rs \<Rightarrow> rs | _ \<Rightarrow> [])) = Inr pids_raw"
  using assms
  by (cases retry)
    (auto simp: MLY_finalize_def drop_columns_def concatenated_rows_def Let_def
      split: if_splits sum.splits option.splits)

lemma GSV_finalize_returns:
  assumes "shards \<noteq> []"
    and "has_column (concat shards @ (case retry of None \<Rightarrow> [] | Some rs \<Rightarrow> rs)) ''lat_lon_id''"
    and "list_all (has_column (concatenated_rows shards (case retry of None \<Rightarrow> [] | Some rs \<Rightarrow> rs)))
           (''panoid'' # id_columns)"
  shows "\<exists>pids_raw. GSV_finalize id_columns shards retry = Inr pids_raw"
  using assms
  by (cases retry)
    (simp_all add: GSV_finalize_def concat_frames_def drop_columns_def drop_duplicates_def
      concatenated_rows_def)

lemma MLY_finalize_returns:
  assumes "shards \<noteq> []"
    and "has_column (concat shards @ (case retry of RetryRows rs \<Rightarrow> rs | _ \<Rightarrow> [])) ''lat_lon_id''"
    and "list_all (has_column (concatenated_rows shards (case retry of RetryRows rs \<Rightarrow> rs | _ \<Rightarrow> [])))
           (''id'' # id_columns)"
  shows "\<exists>pids_raw. MLY_finalize id_columns shards retry = Inr (Some pids_raw)"
  using assms
  by (cases retry)
    (simp_all add: MLY_finalize_def drop_columns_def drop_duplicates_def concatenated_rows_def
      Let_def)

text \<open>
  Claim C1.  When discovery finalises, the table written to \<open>pids_raw.csv\<close> has no
  two rows with the same key (the pano id column and the user id columns), it has a row
  for every key of the concatenated shard rows (followed by the retry rows), and each of
  its rows is the first row with its key among them; this holds for the GSV and for the
  Mapillary downloader.  The table is written whenever there is a shard and the rows
  have the column \<open>lat_lon_id\<close> and the key columns.
\<close>

theorem pids_raw_deduplicated_keeps_first:
  "(shards \<noteq> []
      \<and> has_column (concat shards @ (case retry of None \<Rightarrow> [] | Some rs \<Rightarrow> rs)) ''lat_lon_id''
      \<and> list_all (has_column (concatenated_rows shards (case retry of None \<Rightarrow> [] | Some rs \<Rightarrow> rs)))
            (''panoid'' # id_columns)
      \<longrightarrow> (\<exists>written. GSV_finalize id_columns shards retry = Inr written))
   \<and> (GSV_finalize id_columns shards retry = Inr pids_raw \<longrightarrow>
      distinct (map (key_of (''panoid'' # id_columns)) pids_raw)
      \<and> set (map (key_of (''panoid'' # id_columns)) pids_raw)
          = set (map (key_of (''panoid'' # id_columns))
                  (concatenated_rows shards (case retry of None \<Rightarrow> [] | Some rs \<Rightarrow> rs)))
      \<and> (\<forall>r \<in> set pids_raw.
            find (\<lambda>x. key_of (''panoid'' # id_columns) x = key_of (''panoid'' # id_columns) r)
              (concatenated_rows shards (case retry of None \<Rightarrow> [] | Some rs \<Rightarrow> rs))
            = Some r))
   \<and> (shards' \<noteq> []
      \<and> has_column (concat shards' @ (case retry' of RetryRows rs \<Rightarrow> rs | _ \<Rightarrow> [])) ''lat_lon_id''
      \<and> list_all (has_column (concatenated_rows shards' (case retry' of RetryRows rs \<Rightarrow> rs | _ \<Rightarrow> [])))
            (''id'' # id_columns')
      \<longrightarrow> (\<exists>written. MLY_finalize id_columns' shards' retry' = Inr (Some written)))
   \<and> (MLY_finalize id_columns' shards' retry' = Inr (Some pids_raw') \<longrightarrow>
      distinct (map (key_of (''id'' # id_columns')) pids_raw')
      \<and> set (map (key_of (''id'' # id_columns')) pids_raw')
          = set (map (key_of (''id'' # id_columns'))
                  (concatenated_rows shards' (case retry' of RetryRows rs \<Rightarrow> rs | _ \<Rightarrow> [])))
      \<and> (\<forall>r \<in> set pids_raw'.
            find (\<lambda>x. key_of (''id'' # id_columns') x = key_of (''id'' # id_columns') r)
              (concatenated_rows shards' (case retry' of RetryRows rs \<Rightarrow> rs | _ \<Rightarrow> []))
            = Some r))"
proof (intro conjI impI)
  assume "shards \<noteq> []
      \<and> has_column (concat shards @ (case retry of None \<Rightarrow> [] | Some rs \<Rightarrow> rs)) ''lat_lon_id''
      \<and> list_all (has_column (concatenated_rows shards (case retry of None \<Rightarrow> [] | Some rs \<Rightarrow> rs)))
            (''panoid'' # id_columns)"
  then show "\<exists>written. GSV_finalize id_columns shards retry = Inr written"
    by (intro GSV_finalize_returns) simp_all
next
  assume "shards' \<noteq> []
      \<and> has_column (concat shards' @ (case retry' of RetryRows rs \<Rightarrow> rs | _ \<Rightarrow> [])) ''lat_lon_id''
      \<and> list_all (has_column (concatenated_rows shards' (case retry' of RetryRows rs \<Rightarrow> rs | _ \<Rightarrow> [])))
            (''id'' # id_columns')"
  then show "\<exists>written. MLY_finalize id_columns' shards' retry' = Inr (Some written)"
    by (intro MLY_finalize_returns) simp_all
next
  assume "GSV_finalize id_columns shards retry = Inr pids_raw"
  then have d: "drop_duplicates (''panoid'' # id_columns)
           (concatenated_rows shards (case retry of None \<Rightarrow> [] | Some rs \<Rightarrow> rs)) = Inr pids_raw"
    by (rule GSV_finalize_Inr)
  from d show "distinct (map (key_of (''panoid'' # id_columns)) pids_raw)"
    by (rule drop_duplicates_first(1))
  from d show "set (map (key_of (''panoid'' # id_columns)) pids_raw)
          = set (map (key_of (''panoid'' # id_columns))
                  (concatenated_rows shards (case retry of None \<Rightarrow> [] | Some rs \<Rightarrow> rs)))"
    by (rule drop_duplicates_first(2))
  from d show "\<forall>r \<in> set pids_raw.
            find (\<lambda>x. key_of (''panoid'' # id_columns) x = key_of (''panoid'' # id_columns) r)
              (concatenated_rows shards (case retry of None \<Rightarrow> [] | Some rs \<Rightarrow> rs))
            = Some r"
    by (rule drop_duplicates_first(3))
next
  assume "MLY_finalize id_columns' shards' retry' = Inr (Some pids_raw')"
  then have d: "drop_duplicates (''id'' # id_columns')
           (concatenated_rows shards' (case retry' of RetryRows rs \<Rightarrow> rs | _ \<Rightarrow> [])) = Inr pids_raw'"
    by (rule MLY_finalize_Inr)
  from d show "distinct (map (key_of (''id'' # id_columns')) pids_raw')"
    by (rule drop_duplicates_first(1))
  from d show "set (map (key_of (''id'' # id_columns')) pids_raw')
          = set (map (key_of (''id'' # id_columns'))
                  (concatenated_rows shards' (case retry' of RetryRows rs \<Rightarrow> rs | _ \<Rightarrow> [])))"
    by (rule drop_duplicates_first(2))
  from d show "\<forall>r \<in> set pids_raw'.
            find (\<lambda>x. key_of (''id'' # id_columns') x = key_of (''id'' # id_columns') r)
              (concatenated_rows shards' (case retry' of RetryRows rs \<Rightarrow> rs | _ \<Rightarrow> []))
            = Some r"
    by (rule drop_duplicates_first(3))
qed

lemmas finalize_eval_defs =
  GSV_finalize_def MLY_finalize_def concat_frames_def drop_columns_def drop_duplicates_def
  has_column_def drop_column_def key_of_def cell_of_def concatenated_rows_def Let_def

text \<open>
  The theorem at a run of each downloader.  GSV: two shards and a retry checkpoint; the
  second shard repeats the key of the first, the retry row has a key of its own and is
  written.  Mapillary: two shards with the same id, of which the first row is written.
\<close>

theorem pids_raw_deduplicated_keeps_first_witness:
  "has_column (concat
     [[[(''panoid'', StrC ''p''), (''lat'', FloatC 1), (''lat_lon_id'', IntC 1), (''site'', StrC ''A'')]],
      [[(''panoid'', StrC ''p''), (''lat'', FloatC 2), (''lat_lon_id'', IntC 2), (''site'', StrC ''A'')],
       [(''panoid'', StrC ''p''), (''lat'', FloatC 2), (''lat_lon_id'', IntC 3), (''site'', StrC ''B'')]]]
     @ [[(''panoid'', StrC ''q''), (''lat'', FloatC 3), (''lat_lon_id'', IntC 4), (''site'', StrC ''A'')]]) ''lat_lon_id''
   \<and> list_all (has_column (concatenated_rows
     [[[(''panoid'', StrC ''p''), (''lat'', FloatC 1), (''lat_lon_id'', IntC 1), (''site'', StrC ''A'')]],
      [[(''panoid'', StrC ''p''), (''lat'', FloatC 2), (''lat_lon_id'', IntC 2), (''site'', StrC ''A'')],
       [(''panoid'', StrC ''p''), (''lat'', FloatC 2), (''lat_lon_id'', IntC 3), (''site'', StrC ''B'')]]]
     [[(''panoid'', StrC ''q''), (''lat'', FloatC 3), (''lat_lon_id'', IntC 4), (''site'', StrC ''A'')]])) [''panoid'', ''site'']
   \<and> GSV_finalize [''site'']
     [[[(''panoid'', StrC ''p''), (''lat'', FloatC 1), (''lat_lon_id'', IntC 1), (''site'', StrC ''A'')]],
      [[(''panoid'', StrC ''p''), (''lat'', FloatC 2), (''lat_lon_id'', IntC 2), (''site'', StrC ''A'')],
       [(''panoid'', StrC ''p''), (''lat'', FloatC 2), (''lat_lon_id'', IntC 3), (''site'', StrC ''B'')]]]
     (Some [[(''panoid'', StrC ''q''), (''lat'', FloatC 3), (''lat_lon_id'', IntC 4), (''site'', StrC ''A'')]])
   = Inr [[(''panoid'', StrC ''p''), (''lat'', FloatC 1), (''site'', StrC ''A'')],
          [(''panoid'', StrC ''p''), (''lat'', FloatC 2), (''site'', StrC ''B'')],
          [(''panoid'', StrC ''q''), (''lat'', FloatC 3), (''site'', StrC ''A'')]]
   \<and> has_column (concat
     [[[(''id'', IntC 7), (''lat'', FloatC 1), (''lat_lon_id'', IntC 1)]],
      [[(''id'', IntC 7), (''lat'', FloatC 2), (''lat_lon_id'', IntC 2)]]]) ''lat_lon_id''
   \<and> list_all (has_column (concatenated_rows
     [[[(''id'', IntC 7), (''lat'', FloatC 1), (''lat_lon_id'', IntC 1)]],
      [[(''id'', IntC 7), (''lat'', FloatC 2), (''lat_lon_id'', IntC 2)]]] [])) [''id'']
   \<and> MLY_finalize []
     [[[(''id'', IntC 7), (''lat'', FloatC 1), (''lat_lon_id'', IntC 1)]],
      [[(''id'', IntC 7), (''lat'', FloatC 2), (''lat_lon_id'', IntC 2)]]]
     NoFailedRows
   = Inr (Some [[(''id'', IntC 7), (''lat'', FloatC 1)]])
   \<and> distinct (map (key_of [''panoid'', ''site''])
        [[(''panoid'', StrC ''p''), (''lat'', FloatC 1), (''site'', StrC ''A'')],
          [(''panoid'', StrC ''p''), (''lat'', FloatC 2), (''site'', StrC ''B'')],
          [(''panoid'', StrC ''q''), (''lat'', FloatC 3), (''site'', StrC ''A'')]])
   \<and> set (map (key_of [''panoid'', ''site''])
        [[(''panoid'', StrC ''p''), (''lat'', FloatC 1), (''site'', StrC ''A'')],
          [(''panoid'', StrC ''p''), (''lat'', FloatC 2), (''site'', StrC ''B'')],
          [(''panoid'', StrC ''q''), (''lat'', FloatC 3), (''site'', StrC ''A'')]])
     = {[StrC ''p'', StrC ''A''], [StrC ''p'', StrC ''B''], [StrC ''q'', StrC ''A'']}
   \<and> distinct (map (key_of [''id'']) [[(''id'', IntC 7), (''lat'', FloatC 1)]])
   \<and> set (map (key_of [''id'']) [[(''id'', IntC 7), (''lat'', FloatC 1)]]) = {[IntC 7]}"
proof -
  let ?shards = "[[[(''panoid'', StrC ''p''), (''lat'', FloatC 1), (''lat_lon_id'', IntC 1), (''site'', StrC ''A'')]],
      [[(''panoid'', StrC ''p''), (''lat'', FloatC 2), (''lat_lon_id'', IntC 2), (''site'', StrC ''A'')],
       [(''panoid'', StrC ''p''), (''lat'', FloatC 2), (''lat_lon_id'', IntC 3), (''site'', StrC ''B'')]]]"
  let ?retry = "[[(''panoid'', StrC ''q''), (''lat'', FloatC 3), (''lat_lon_id'', IntC 4), (''site'', StrC ''A'')]]"
  let ?out = "[[(''panoid'', StrC ''p''), (''lat'', FloatC 1), (''site'', StrC ''A'')],
          [(''panoid'', StrC ''p''), (''lat'', FloatC 2), (''site'', StrC ''B'')],
          [(''panoid'', StrC ''q''), (''lat'', FloatC 3), (''site'', StrC ''A'')]]"
  let ?shards' = "[[[(''id'', IntC 7), (''lat'', FloatC 1), (''lat_lon_id'', IntC 1)]],
      [[(''id'', IntC 7), (''lat'', FloatC 2), (''lat_lon_id'', IntC 2)]]]"
  let ?out' = "[[(''id'', IntC 7), (''lat'', FloatC 1)]]"
  have g: "GSV_finalize [''site''] ?shards (Some ?retry) = Inr ?out"
    by (simp add: finalize_eval_defs)
  have m: "MLY_finalize [] ?shards' NoFailedRows = Inr (Some ?out')"
    by (simp add: finalize_eval_defs)
  have h: "has_column (concat ?shards @ ?retry) ''lat_lon_id''"
    "list_all (has_column (concatenated_rows ?shards ?retry)) [''panoid'', ''site'']"
    "has_column (concat ?shards') ''lat_lon_id''"
    "list_all (has_column (concatenated_rows ?shards' [])) [''id'']"
    by (simp_all add: finalize_eval_defs)
  from pids_raw_deduplicated_keeps_first
    [where shards = ?shards and retry = "Some ?retry" and id_columns = "[''site'']"
       and pids_raw = ?out and shards' = ?shards' and retry' = NoFailedRows
       and id_columns' = "[]" and pids_raw' = ?out']
    g m h
  show ?thesis
    by (simp add: key_of_def cell_of_def)
qed

section \<open>GSV metadata augmentation\<close>

text \<open>
  A table in memory carries an index label for each row.  \<open>read_csv\<close> labels the rows
  0, 1, 2, ...; selecting rows keeps their labels.
\<close>

type_synonym frame = "(nat \<times> row) list"

definition read_csv :: "row list \<Rightarrow> frame" where
  "read_csv rows = zip [0 ..< length rows] rows"

text \<open>
  The part of the cache directory the augmentation works with: \<open>pids_raw.csv\<close>, the
  shards \<open>augmented_pids/checkpoint_batch_{N}.csv\<close> by their number \<open>N\<close> in the order
  \<open>glob\<close> lists them, and \<open>pids_augemented.csv\<close>.
\<close>

record gsv_cache =
  pids_raw_csv :: "row list option"
  augmented_pids :: "(nat \<times> row list) list"
  pids_augemented_csv :: "row list option"

text \<open>\<open>batch_df.to_csv(.../checkpoint_batch_{N}.csv, index=False)\<close>: a file of that name
  is replaced.\<close>

definition write_shard :: "nat \<Rightarrow> row list \<Rightarrow> (nat \<times> row list) list \<Rightarrow> (nat \<times> row list) list" where
  "write_shard n rows dir =
     (if n \<in> fst ` set dir then map (\<lambda>s. if fst s = n then (n, rows) else s) dir
      else dir @ [(n, rows)])"

text \<open>The worker and the two \<open>batch_df.at[...]\<close> assignments for one row; the metadata
  request is a parameter that maps a pano id to the year and month cells.\<close>

definition augment_row :: "(cell \<Rightarrow> cell \<times> cell) \<Rightarrow> row \<Rightarrow> row" where
  "augment_row get_year_month r =
     (case get_year_month (cell_of r ''panoid'') of
        (year, month) \<Rightarrow> set_cell ''month'' month (set_cell ''year'' year r))"

text \<open>
  \<open>GSVDownloader._augment_metadata\<close>.  The last argument tells whether the process is
  stopped: \<open>Some k\<close> stops it when \<open>k\<close> batches have written their shard (or all, if
  there are fewer), before anything else is written; \<open>None\<close> lets it finish.  The
  result is the new cache, the pano ids for which a metadata request was made, in
  batch order, and the returned table when the method returns.
\<close>

definition augment_metadata ::
  "(cell \<Rightarrow> cell \<times> cell) \<Rightarrow> gsv_cache \<Rightarrow> frame \<Rightarrow> nat option
     \<Rightarrow> gsv_cache \<times> cell list \<times> (py_error + row list) option" where
  "augment_metadata get_year_month cache df_in stopped =
     (case pids_augemented_csv cache of
        Some rows \<Rightarrow> (cache, [], Some (Inr rows))
      | None \<Rightarrow>
          (let checkpoints = augmented_pids cache;
               checkpoint_start_index = length checkpoints;
               completed = length (concat (map snd checkpoints));
               df = (if checkpoint_start_index > 0
                     then filter (\<lambda>lr. \<not> fst lr < completed) df_in else df_in);
               num_batches = (length df + 1000 - 1) div 1000;
               batches = batch_loop 0
                   (case stopped of None \<Rightarrow> num_batches | Some k \<Rightarrow> min k num_batches) 1000 df;
               requests = concat (map (\<lambda>b. map (\<lambda>lr. cell_of (snd lr) ''panoid'') (snd b)) batches);
               shards = fold (\<lambda>b dir. write_shard (checkpoint_start_index + fst b)
                                  (map (\<lambda>lr. augment_row get_year_month (snd lr)) (snd b)) dir)
                          batches checkpoints
           in case stopped of
                Some _ \<Rightarrow> (cache\<lparr>augmented_pids := shards\<rparr>, requests, None)
              | None \<Rightarrow>
                  if shards = []
                  then (cache\<lparr>augmented_pids := shards\<rparr>, requests,
                        Some (Inl (ValueError ''No objects to concatenate'')))
                  else (\<lparr>pids_raw_csv = None, augmented_pids = [],
                         pids_augemented_csv = Some (concat (map snd shards))\<rparr>,
                        requests, Some (Inr (concat (map snd shards))))))"

text \<open>
  \<open>GSVDownloader._get_raw_pids\<close> for a polygon input (a shapefile, a place name, or a
  CSV with a buffer).  With \<open>pids_raw.csv\<close> in the cache the method returns that table
  as read.  Otherwise \<open>_get_pids_from_gdf\<close> runs discovery, which writes its table to
  \<open>pids_raw.csv\<close> (the first parameter is the table discovery returns), and returns the
  rows that lie within the input polygons, with their labels.
\<close>

definition get_raw_pids_polygon ::
  "frame \<Rightarrow> (row \<Rightarrow> bool) \<Rightarrow> gsv_cache \<Rightarrow> gsv_cache \<times> frame" where
  "get_raw_pids_polygon discovered within_polygon cache =
     (case pids_raw_csv cache of
        Some rows \<Rightarrow> (cache, read_csv rows)
      | None \<Rightarrow>
          (cache\<lparr>pids_raw_csv := Some (map snd discovered)\<rparr>,
           filter (\<lambda>lr. within_polygon (snd lr)) discovered))"

text \<open>\<open>GSVDownloader._get_pids\<close> with \<open>augment_metadata=True\<close> and an API key, for a
  polygon input, up to the return of the augmentation.\<close>

definition get_pids_augmented ::
  "frame \<Rightarrow> (row \<Rightarrow> bool) \<Rightarrow> (cell \<Rightarrow> cell \<times> cell) \<Rightarrow> gsv_cache \<Rightarrow> nat option
     \<Rightarrow> gsv_cache \<times> cell list \<times> (py_error + row list) option" where
  "get_pids_augmented discovered within_polygon get_year_month cache stopped =
     (case get_raw_pids_polygon discovered within_polygon cache of
        (cache', pid) \<Rightarrow> augment_metadata get_year_month cache' pid stopped)"

lemmas augment_eval_defs =
  get_pids_augmented_def get_raw_pids_polygon_def augment_metadata_def read_csv_def
  write_shard_def augment_row_def batch_loop_def set_cell_def cell_of_def Let_def

section \<open>Metadata augmentation: proofs\<close>

lemma read_csv_skip:
  "map snd (filter (\<lambda>lr. \<not> fst lr < n) (read_csv rows)) = drop n rows"
  unfolding read_csv_def
proof (induction rows rule: rev_induct)
  case Nil
  then show ?case by simp
next
  case (snoc x xs)
  then show ?case
    by (simp add: not_less)
qed

lemma fold_write_shard_fresh:
  assumes "\<forall>b \<in> set bs. k + fst b \<notin> fst ` set dir" and "distinct (map fst bs)"
  shows "fold (\<lambda>b dir. write_shard (k + fst b) (f b) dir) bs dir
         = dir @ map (\<lambda>b. (k + fst b, f b)) bs"
  using assms
proof (induction bs arbitrary: dir)
  case Nil
  then show ?case by simp
next
  case (Cons b bs)
  have w: "write_shard (k + fst b) (f b) dir = dir @ [(k + fst b, f b)]"
    using Cons.prems(1) by (simp add: write_shard_def)
  have "k + fst c \<notin> fst ` set (dir @ [(k + fst b, f b)])" if "c \<in> set bs" for c
  proof -
    from that Cons.prems(2) have "fst c \<noteq> fst b"
      by (metis distinct.simps(2) image_eqI list.simps(9) set_map)
    with that Cons.prems(1) show ?thesis
      by auto
  qed
  then have "\<forall>c \<in> set bs. k + fst c \<notin> fst ` set (dir @ [(k + fst b, f b)])"
    by blast
  with Cons.IH [of "dir @ [(k + fst b, f b)]"] Cons.prems(2) w show ?case
    by simp
qed

lemma batch_loop_numbers: "map fst (batch_loop 0 n batch_size df) = [1 ..< Suc n]"
  by (simp add: batch_loop_def o_def map_Suc_upt [symmetric] del: upt_Suc)

lemma batch_loop_map:
  "map (\<lambda>b. map f (snd b)) (batch_loop start n batch_size df)
   = map snd (batch_loop start n batch_size (map f df))"
  by (simp add: batch_loop_def take_map drop_map)

lemma read_csv_rows: "map snd (read_csv rows) = rows"
  by (simp add: read_csv_def)

lemma batch_loop_all:
  "concat (map snd (batch_loop 0 ((length df + 1000 - 1) div 1000) 1000 df)) = df"
  by (rule batch_loop_fresh) simp

text \<open>
  The resumption by position, where it works.  The input is the table as read from
  \<open>pids_raw.csv\<close>; the shards are numbered 1 to \<open>k\<close> and hold the augmented first
  \<open>n\<close> rows of that table.  Then the run requests metadata for the other rows only,
  and the table it writes has every input row once, augmented, in order.
\<close>

lemma augment_metadata_resume_aligned:
  assumes none: "pids_augemented_csv cache = None"
    and nums: "map fst (augmented_pids cache) = [1 ..< Suc k]"
    and rec: "concat (map snd (augmented_pids cache)) = map (augment_row g) (take n rows)"
    and n: "n \<le> length rows" and ne: "rows \<noteq> []"
  shows "augment_metadata g cache (read_csv rows) None
         = (\<lparr>pids_raw_csv = None, augmented_pids = [],
             pids_augemented_csv = Some (map (augment_row g) rows)\<rparr>,
            map (\<lambda>r. cell_of r ''panoid'') (drop n rows),
            Some (Inr (map (augment_row g) rows)))"
proof -
  define cps where "cps = augmented_pids cache"
  define df where "df = (if length cps > 0
       then filter (\<lambda>lr. \<not> fst lr < length (concat (map snd cps))) (read_csv rows)
       else read_csv rows)"
  define batches where "batches = batch_loop 0 ((length df + 1000 - 1) div 1000) 1000 df"
  define shards where "shards = fold (\<lambda>b dir. write_shard (length cps + fst b)
                                  (map (\<lambda>lr. augment_row g (snd lr)) (snd b)) dir) batches cps"
  have len: "length cps = k"
  proof -
    have "length (map fst cps) = length [1 ..< Suc k]"
      by (simp only: cps_def nums)
    then show ?thesis
      by (simp del: upt_Suc)
  qed
  have completed: "length (concat (map snd cps)) = n"
    using rec n by (simp add: cps_def)
  have df_rows: "map snd df = drop n rows"
  proof (cases "length cps > 0")
    case True
    then show ?thesis
      by (simp add: df_def completed read_csv_skip)
  next
    case False
    then have "cps = []" by simp
    with completed ne have "n = 0" by simp
    with False show ?thesis
      by (simp add: df_def read_csv_rows)
  qed
  have requests: "concat (map (\<lambda>b. map (\<lambda>lr. cell_of (snd lr) ''panoid'') (snd b)) batches)
                  = map (\<lambda>r. cell_of r ''panoid'') (drop n rows)"
  proof -
    have "concat (map (\<lambda>b. map (\<lambda>lr. cell_of (snd lr) ''panoid'') (snd b)) batches)
          = map (\<lambda>lr. cell_of (snd lr) ''panoid'') df"
      unfolding batches_def batch_loop_map
      using batch_loop_all [of "map (\<lambda>lr. cell_of (snd lr) ''panoid'') df"] by simp
    also have "\<dots> = map (\<lambda>r. cell_of r ''panoid'') (map snd df)"
      by simp
    finally show ?thesis
      by (simp only: df_rows)
  qed
  have fresh: "\<forall>b \<in> set batches. length cps + fst b \<notin> fst ` set cps"
  proof
    fix b assume "b \<in> set batches"
    then have "fst b \<in> set (map fst batches)"
      by simp
    then have "1 \<le> fst b"
      unfolding batches_def batch_loop_numbers by (simp del: upt_Suc)
    moreover have "fst ` set cps = set [1 ..< Suc k]"
      using nums by (metis cps_def set_map)
    ultimately show "length cps + fst b \<notin> fst ` set cps"
      using len by (simp del: upt_Suc)
  qed
  have dist: "distinct (map fst batches)"
    unfolding batches_def batch_loop_numbers by (rule distinct_upt)
  have shards_eq: "shards = cps @ map (\<lambda>b. (length cps + fst b,
                                       map (\<lambda>lr. augment_row g (snd lr)) (snd b))) batches"
    unfolding shards_def using fresh dist by (rule fold_write_shard_fresh)
  have final: "concat (map snd shards) = map (augment_row g) rows"
  proof -
    have "concat (map snd shards)
          = concat (map snd cps)
            @ concat (map (\<lambda>b. map (\<lambda>lr. augment_row g (snd lr)) (snd b)) batches)"
      by (simp add: shards_eq o_def)
    also have "concat (map (\<lambda>b. map (\<lambda>lr. augment_row g (snd lr)) (snd b)) batches)
               = map (\<lambda>lr. augment_row g (snd lr)) df"
      unfolding batches_def batch_loop_map
      using batch_loop_all [of "map (\<lambda>lr. augment_row g (snd lr)) df"] by simp
    also have "\<dots> = map (augment_row g) (map snd df)"
      by simp
    also have "concat (map snd cps) @ map (augment_row g) (map snd df) = map (augment_row g) rows"
      by (simp only: df_rows rec [folded cps_def] map_append [symmetric] append_take_drop_id)
    finally show ?thesis .
  qed
  have nonempty: "shards \<noteq> []"
    using final ne by auto
  have "augment_metadata g cache (read_csv rows) None
        = (if shards = []
           then (cache\<lparr>augmented_pids := shards\<rparr>,
                 concat (map (\<lambda>b. map (\<lambda>lr. cell_of (snd lr) ''panoid'') (snd b)) batches),
                 Some (Inl (ValueError ''No objects to concatenate'')))
           else (\<lparr>pids_raw_csv = None, augmented_pids = [],
                  pids_augemented_csv = Some (concat (map snd shards))\<rparr>,
                 concat (map (\<lambda>b. map (\<lambda>lr. cell_of (snd lr) ''panoid'') (snd b)) batches),
                 Some (Inr (concat (map snd shards)))))"
    unfolding augment_metadata_def Let_def shards_def batches_def df_def cps_def
    by (simp only: none option.case)
  then show ?thesis
    by (simp only: nonempty requests final if_False)
qed

text \<open>
  Claim C6, at an input where the code departs from it.  Discovery over a polygon
  finds the panoramas \<open>a\<close> and \<open>b\<close>, of which only \<open>b\<close> lies within the
  polygon.  The first run augments the filtered table, writes the shard that records
  \<open>b\<close> and is stopped before the shards are merged.  The second run reads
  \<open>pids_raw.csv\<close>, which holds both panoramas unfiltered, skips the row labelled 0
  (that is \<open>a\<close>, which no shard records), requests the metadata of \<open>b\<close> again, and
  writes a table with \<open>b\<close> twice.
\<close>

theorem augment_metadata_resume_repeats_recorded_row:
  "get_pids_augmented
     [(0, [(''panoid'', StrC ''a'')]), (1, [(''panoid'', StrC ''b'')])]
     (\<lambda>r. cell_of r ''panoid'' = StrC ''b'')
     (\<lambda>p. (IntC 2020, IntC 6))
     \<lparr>pids_raw_csv = None, augmented_pids = [], pids_augemented_csv = None\<rparr>
     (Some 1)
   = (\<lparr>pids_raw_csv = Some [[(''panoid'', StrC ''a'')], [(''panoid'', StrC ''b'')]],
       augmented_pids = [(1, [[(''panoid'', StrC ''b''), (''year'', IntC 2020), (''month'', IntC 6)]])],
       pids_augemented_csv = None\<rparr>,
      [StrC ''b''], None)
   \<and> get_pids_augmented
     [(0, [(''panoid'', StrC ''a'')]), (1, [(''panoid'', StrC ''b'')])]
     (\<lambda>r. cell_of r ''panoid'' = StrC ''b'')
     (\<lambda>p. (IntC 2020, IntC 6))
     \<lparr>pids_raw_csv = Some [[(''panoid'', StrC ''a'')], [(''panoid'', StrC ''b'')]],
       augmented_pids = [(1, [[(''panoid'', StrC ''b''), (''year'', IntC 2020), (''month'', IntC 6)]])],
       pids_augemented_csv = None\<rparr>
     None
   = (\<lparr>pids_raw_csv = None, augmented_pids = [],
       pids_augemented_csv = Some
         [[(''panoid'', StrC ''b''), (''year'', IntC 2020), (''month'', IntC 6)],
          [(''panoid'', StrC ''b''), (''year'', IntC 2020), (''month'', IntC 6)]]\<rparr>,
      [StrC ''b''],
      Some (Inr [[(''panoid'', StrC ''b''), (''year'', IntC 2020), (''month'', IntC 6)],
                 [(''panoid'', StrC ''b''), (''year'', IntC 2020), (''month'', IntC 6)]]))"
  by (simp add: augment_eval_defs)

end
